theory Spec2Isabelle
  imports Complex_Main
begin

section \<open>The polymer substrate of pinetree (src/pinetree/polymer.cpp)\<close>

text \<open>
  Coordinates are C++ \<^verbatim>\<open>int\<close>s and are modelled as unbounded integers (genome
  coordinates stay far from the 32-bit range); \<^verbatim>\<open>double\<close> is modelled as \<open>real\<close>,
  so every statement about propensities is a statement in exact arithmetic.
  A \<^verbatim>\<open>std::runtime_error\<close> is a value of \<open>error\<close>, returned together with the
  state at the moment it is thrown; reading or erasing outside a vector (undefined
  behaviour in C++) is the error \<open>OutOfBounds\<close>.
\<close>

datatype error =
    NoFreePromoter | NoInteraction | MaskOverlap | NoPropensity | InvalidOverlap
  | PropListSize | InvalidIndex | MissingWeight | NegativeUncovered | WeightsLength
  | OutOfBounds

subsection \<open>Sites, mask, polymerase (feature.hpp)\<close>

text \<open>
  Modelled from the spec: feature.hpp (Promoter, Terminator, Mask, Polymerase) is not
  among the sources. The fields and the operations below follow sections 3, 4.3 and 4.4
  of the specification.
\<close>

record promoter =
  pr_name :: string
  pr_start :: int
  pr_stop :: int
  pr_interactions :: "(string \<times> real) list"
  pr_covered :: bool
  pr_previously_covered :: bool
  pr_gene :: string
  pr_type :: string

record terminator =
  tm_name :: string
  tm_start :: int
  tm_stop :: int
  tm_interactions :: "(string \<times> real) list"
  tm_covered :: bool
  tm_previously_covered :: bool
  tm_readthrough :: bool
  tm_reading_frame :: "int option"
  tm_gene :: string

record mask =
  mk_name :: string
  mk_start :: int
  mk_stop :: int
  mk_interactions :: "(string \<times> real) list"

text \<open>
  A polymerase is reached through a shared pointer; \<open>move_slots\<close> is its
  \<^verbatim>\<open>move_signal_\<close>: the transcripts whose \<^verbatim>\<open>ShiftMask\<close> has been connected to it,
  in the order of connection (the only slots this program ever connects).
\<close>

record polymerase =
  pol_name :: string
  footprint :: int
  speed :: real
  pol_start :: int
  pol_stop :: int
  reading_frame :: int
  move_slots :: "nat list"

definition Promoter :: "string \<Rightarrow> int \<Rightarrow> int \<Rightarrow> (string \<times> real) list \<Rightarrow> promoter" where
  "Promoter name start stop interactions =
     \<lparr>pr_name = name, pr_start = start, pr_stop = stop, pr_interactions = interactions,
      pr_covered = False, pr_previously_covered = False, pr_gene = [],
      pr_type = ''promoter''\<rparr>"

definition Terminator :: "string \<Rightarrow> int \<Rightarrow> int \<Rightarrow> (string \<times> real) list \<Rightarrow> terminator" where
  "Terminator name start stop efficiency =
     \<lparr>tm_name = name, tm_start = start, tm_stop = stop, tm_interactions = efficiency,
      tm_covered = False, tm_previously_covered = False, tm_readthrough = False,
      tm_reading_frame = None, tm_gene = []\<rparr>"

definition Mask :: "string \<Rightarrow> int \<Rightarrow> int \<Rightarrow> (string \<times> real) list \<Rightarrow> mask" where
  "Mask name start stop interactions =
     \<lparr>mk_name = name, mk_start = start, mk_stop = stop, mk_interactions = interactions\<rparr>"

definition Cover :: "promoter \<Rightarrow> promoter" where
  "Cover s = s\<lparr>pr_covered := True\<rparr>"

definition Uncover :: "promoter \<Rightarrow> promoter" where
  "Uncover s = s\<lparr>pr_covered := False\<rparr>"

definition SaveState :: "promoter \<Rightarrow> promoter" where
  "SaveState s = s\<lparr>pr_previously_covered := pr_covered s\<rparr>"

definition IsCovered :: "promoter \<Rightarrow> bool" where
  "IsCovered s = pr_covered s"

definition WasCovered :: "promoter \<Rightarrow> bool" where
  "WasCovered s = (pr_covered s \<and> \<not> pr_previously_covered s)"

definition WasUncovered :: "promoter \<Rightarrow> bool" where
  "WasUncovered s = (\<not> pr_covered s \<and> pr_previously_covered s)"

definition CheckInteraction :: "promoter \<Rightarrow> string \<Rightarrow> bool" where
  "CheckInteraction s species = (map_of (pr_interactions s) species \<noteq> None)"

definition Clone :: "promoter \<Rightarrow> promoter" where
  "Clone s = s\<lparr>pr_covered := False, pr_previously_covered := False\<rparr>"

definition Terminator_CheckInteraction :: "terminator \<Rightarrow> string \<Rightarrow> int \<Rightarrow> bool" where
  "Terminator_CheckInteraction t species frame =
     (map_of (tm_interactions t) species \<noteq> None \<and>
      (tm_reading_frame t = None \<or> tm_reading_frame t = Some frame))"

definition efficiency :: "terminator \<Rightarrow> string \<Rightarrow> real" where
  "efficiency t species = (case map_of (tm_interactions t) species of None \<Rightarrow> 0 | Some e \<Rightarrow> e)"

definition set_readthrough :: "bool \<Rightarrow> terminator \<Rightarrow> terminator" where
  "set_readthrough b t = t\<lparr>tm_readthrough := b\<rparr>"

definition Terminator_Clone :: "terminator \<Rightarrow> terminator" where
  "Terminator_Clone t = t\<lparr>tm_covered := False, tm_previously_covered := False\<rparr>"

definition Mask_CheckInteraction :: "mask \<Rightarrow> string \<Rightarrow> bool" where
  "Mask_CheckInteraction m species = (map_of (mk_interactions m) species \<noteq> None)"

definition Recede :: "mask \<Rightarrow> mask" where
  "Recede m = m\<lparr>mk_start := mk_start m + 1\<rparr>"

subsection \<open>The interval index (IntervalTree.h)\<close>

text \<open>
  Modelled from the spec: IntervalTree.h is not among the sources. An interval carries
  its own bounds and a shared pointer to a site. The vector of intervals of a polymer
  owns the site objects here, and a tree built from it is the list of the positions it
  indexes, so that the tree and the vector share the sites as the pointers do. Section
  4.1 of the specification gives the two queries; results come in stored order.
\<close>

record 'a interval =
  iv_start :: int
  iv_stop :: int
  iv_value :: 'a

definition Interval :: "int \<Rightarrow> int \<Rightarrow> 'a \<Rightarrow> 'a interval" where
  "Interval start stop v = \<lparr>iv_start = start, iv_stop = stop, iv_value = v\<rparr>"

definition IntervalTree :: "'a interval list \<Rightarrow> nat list" where
  "IntervalTree ivs = [0 ..< length ivs]"

definition findOverlapping :: "'a interval list \<Rightarrow> nat list \<Rightarrow> int \<Rightarrow> int \<Rightarrow> nat list" where
  "findOverlapping ivs tree qstart qstop =
     filter (\<lambda>i. iv_start (ivs ! i) \<le> qstop \<and> iv_stop (ivs ! i) \<ge> qstart) tree"

definition findContained :: "'a interval list \<Rightarrow> nat list \<Rightarrow> int \<Rightarrow> int \<Rightarrow> nat list" where
  "findContained ivs tree qstart qstop =
     filter (\<lambda>i. iv_start (ivs ! i) \<ge> qstart \<and> iv_stop (ivs ! i) \<le> qstop) tree"

subsection \<open>Polymer: state and the operations that stay inside one polymer\<close>

record polymer =
  p_name :: string
  p_index :: int
  p_start :: int
  p_stop :: int
  weights :: "real list"
  mask :: mask
  binding_intervals :: "promoter interval list"
  release_intervals :: "terminator interval list"
  binding_sites :: "nat list"
  release_sites :: "nat list"
  polymerases :: "nat list"
  prop_list :: "real list"
  prop_sum :: real
  uncovered :: "string \<Rightarrow> int option"
  species_log :: "string \<Rightarrow> int option"

text \<open>
  \<^verbatim>\<open>Polymer::Polymer\<close> (lines 8-14). The members it does not mention start empty,
  \<^verbatim>\<open>prop_sum_\<close> and \<^verbatim>\<open>index_\<close> at 0 (their initialisers are in polymer.hpp, which is
  not among the sources).
\<close>

definition Polymer :: "string \<Rightarrow> int \<Rightarrow> int \<Rightarrow> polymer" where
  "Polymer name start stop =
     \<lparr>p_name = name, p_index = 0, p_start = start, p_stop = stop,
      weights = replicate (nat (stop - start + 1)) 1,
      mask = Mask ''mask'' (stop + 1) stop [],
      binding_intervals = [], release_intervals = [],
      binding_sites = [], release_sites = [],
      polymerases = [], prop_list = [], prop_sum = 0,
      uncovered = Map.empty, species_log = Map.empty\<rparr>"

definition site :: "polymer \<Rightarrow> nat \<Rightarrow> promoter" where
  "site p i = iv_value (binding_intervals p ! i)"

definition update_site :: "nat \<Rightarrow> (promoter \<Rightarrow> promoter) \<Rightarrow> polymer \<Rightarrow> polymer" where
  "update_site i f p =
     p\<lparr>binding_intervals :=
         (binding_intervals p)[i := (binding_intervals p ! i)\<lparr>iv_value := f (site p i)\<rparr>]\<rparr>"

definition release_site :: "polymer \<Rightarrow> nat \<Rightarrow> terminator" where
  "release_site p i = iv_value (release_intervals p ! i)"

definition update_release_site :: "nat \<Rightarrow> (terminator \<Rightarrow> terminator) \<Rightarrow> polymer \<Rightarrow> polymer" where
  "update_release_site i f p =
     p\<lparr>release_intervals :=
         (release_intervals p)[i := (release_intervals p ! i)\<lparr>iv_value := f (release_site p i)\<rparr>]\<rparr>"

text \<open>\<^verbatim>\<open>Polymer::CoverBindingSite\<close> (lines 127-143).\<close>

definition CoverBindingSite :: "string \<Rightarrow> polymer \<Rightarrow> (error \<times> polymer) + polymer" where
  "CoverBindingSite species_name p =
     (let c = (case uncovered p species_name of None \<Rightarrow> 0 | Some n \<Rightarrow> n - 1);
          p1 = p\<lparr>uncovered := (uncovered p)(species_name \<mapsto> c)\<rparr>
      in if c < 0 then Inl (NegativeUncovered, p1)
         else Inr (p1\<lparr>species_log := (species_log p1)(species_name \<mapsto>
                (case species_log p1 species_name of None \<Rightarrow> - 1 | Some n \<Rightarrow> n - 1))\<rparr>))"

text \<open>\<^verbatim>\<open>Polymer::UncoverBindingSite\<close> (lines 145-156).\<close>

definition UncoverBindingSite :: "string \<Rightarrow> polymer \<Rightarrow> polymer" where
  "UncoverBindingSite species_name p =
     (let p1 = p\<lparr>uncovered := (uncovered p)(species_name \<mapsto>
                  (case uncovered p species_name of None \<Rightarrow> 1 | Some n \<Rightarrow> n + 1))\<rparr>
      in p1\<lparr>species_log := (species_log p1)(species_name \<mapsto>
                  (case species_log p1 species_name of None \<Rightarrow> 1 | Some n \<Rightarrow> n + 1))\<rparr>)"

text \<open>
  \<^verbatim>\<open>Polymer::CheckAhead\<close> (lines 250-261) and \<^verbatim>\<open>Polymer::CheckBehind\<close> (lines
  263-274). The inner \<^verbatim>\<open>if\<close> on \<^verbatim>\<open>WasCovered\<close> / \<^verbatim>\<open>WasUncovered\<close> has an empty
  body in the source.
\<close>

definition CheckAhead :: "int \<Rightarrow> int \<Rightarrow> polymer \<Rightarrow> polymer" where
  "CheckAhead old_stop new_stop p =
     fold (\<lambda>i q. if pr_start (site q i) < new_stop then update_site i Cover q else q)
          (findOverlapping (binding_intervals p) (binding_sites p) old_stop new_stop) p"

definition CheckBehind :: "int \<Rightarrow> int \<Rightarrow> polymer \<Rightarrow> polymer" where
  "CheckBehind old_start new_start p =
     fold (\<lambda>i q. if pr_stop (site q i) < new_start then update_site i Uncover q else q)
          (findOverlapping (binding_intervals p) (binding_sites p) old_start new_start) p"

text \<open>\<^verbatim>\<open>Polymer::ShiftMask\<close> (lines 106-113).\<close>

definition ShiftMask :: "polymer \<Rightarrow> polymer" where
  "ShiftMask p =
     (if mk_start (mask p) \<le> mk_stop (mask p) then
        (let old_start = mk_start (mask p);
             p1 = p\<lparr>mask := Recede (mask p)\<rparr>
         in CheckBehind old_start (mk_start (mask p1)) p1)
      else p)"

text \<open>
  \<^verbatim>\<open>Polymer::Initialize\<close> (lines 16-39). The first loop can throw (through
  \<^verbatim>\<open>CoverBindingSite\<close>). The vector \<^verbatim>\<open>results\<close> is handed to both queries without
  being cleared in between; whether \<^verbatim>\<open>findOverlapping\<close> appends to its output vector
  or replaces it is decided in IntervalTree.h, so it is the parameter \<open>appends\<close>.
\<close>

fun Initialize_cover :: "nat list \<Rightarrow> polymer \<Rightarrow> (error \<times> polymer) + polymer" where
  "Initialize_cover [] p = Inr p"
| "Initialize_cover (i # results) p =
     (case CoverBindingSite (pr_name (site p i)) p of
        Inl e \<Rightarrow> Inl e
      | Inr p1 \<Rightarrow> Initialize_cover results (update_site i SaveState (update_site i Cover p1)))"

definition Initialize_uncover :: "nat list \<Rightarrow> polymer \<Rightarrow> polymer" where
  "Initialize_uncover results p =
     fold (\<lambda>i q. update_site i SaveState
                   (update_site i Uncover (UncoverBindingSite (pr_name (site q i)) q)))
          results p"

definition Initialize :: "bool \<Rightarrow> polymer \<Rightarrow> (error \<times> polymer) + polymer" where
  "Initialize appends p =
     (let p1 = p\<lparr>binding_sites := IntervalTree (binding_intervals p),
                 release_sites := IntervalTree (release_intervals p)\<rparr>;
          mask_start = mk_start (mask p1);
          mask_stop = mk_stop (mask p1);
          results = findOverlapping (binding_intervals p1) (binding_sites p1) mask_start mask_stop
      in case Initialize_cover results p1 of
           Inl e \<Rightarrow> Inl e
         | Inr p2 \<Rightarrow>
             Inr (Initialize_uncover
                    ((if appends then results else []) @
                     findOverlapping (binding_intervals p2) (binding_sites p2) (p_start p2) mask_stop)
                    p2))"

subsection \<open>Genome, transcripts, and the world the signals act on\<close>

text \<open>
  A genome is a polymer with the transcript templates (composition stands for the C++
  inheritance). Transcripts are allocated by \<^verbatim>\<open>BuildTranscript\<close> and reached
  through pointers, so the world holds a store of polymerases and a store of
  transcripts. The subscribers of \<^verbatim>\<open>termination_signal_\<close> and
  \<^verbatim>\<open>transcript_signal_\<close> and the species tracker are outside this file: their calls
  are recorded in \<open>events\<close>, in order. A move signal is recorded too, and then runs its
  slots. A termination signal is recorded with the number of occupants the polymer has
  at the moment of emission, which is what a subscriber would find there.
\<close>

record genome =
  g_base :: polymer
  transcript_rbs_intervals :: "promoter interval list"
  transcript_stop_site_intervals :: "terminator interval list"
  transcript_rbs :: "nat list"
  transcript_stop_sites :: "nat list"
  transcript_weights :: "real list"
  bindings :: "string \<Rightarrow> (string \<times> real) list option"

datatype event =
    MoveSignal nat
  | TerminationSignal int string string nat
  | TranscriptSignal nat
  | IncrementRibo string int

record world =
  pols :: "nat \<Rightarrow> polymerase"
  genome :: genome
  transcripts :: "nat \<Rightarrow> polymer"
  n_transcripts :: nat
  events :: "event list"

datatype polymer_ref = GenomeRef | TranscriptRef nat

definition get_polymer :: "polymer_ref \<Rightarrow> world \<Rightarrow> polymer" where
  "get_polymer r w = (case r of GenomeRef \<Rightarrow> g_base (genome w) | TranscriptRef k \<Rightarrow> transcripts w k)"

definition put_polymer :: "polymer_ref \<Rightarrow> polymer \<Rightarrow> world \<Rightarrow> world" where
  "put_polymer r p w =
     (case r of
        GenomeRef \<Rightarrow> w\<lparr>genome := (genome w)\<lparr>g_base := p\<rparr>\<rparr>
      | TranscriptRef k \<Rightarrow> w\<lparr>transcripts := (transcripts w)(k := p)\<rparr>)"

definition update_pol :: "nat \<Rightarrow> (polymerase \<Rightarrow> polymerase) \<Rightarrow> world \<Rightarrow> world" where
  "update_pol pol f w = w\<lparr>pols := (pols w)(pol := f (pols w pol))\<rparr>"

definition emit_event :: "event \<Rightarrow> world \<Rightarrow> world" where
  "emit_event e w = w\<lparr>events := events w @ [e]\<rparr>"

text \<open>The C++ remainder truncates towards zero.\<close>

definition cpp_mod :: "int \<Rightarrow> int \<Rightarrow> int" where
  "cpp_mod a b = (if a \<ge> 0 then a mod \<bar>b\<bar> else - ((- a) mod \<bar>b\<bar>))"

text \<open>
  \<^verbatim>\<open>Signal::emit\<close> (event_signal.hpp, lines 67-73) on a polymerase's move signal:
  every connected slot is called, in the order of the slot map; each slot is
  \<^verbatim>\<open>Transcript::ShiftMask\<close> on the transcript it was connected for.
\<close>

definition ShiftMask_at :: "polymer_ref \<Rightarrow> world \<Rightarrow> world" where
  "ShiftMask_at r w = put_polymer r (ShiftMask (get_polymer r w)) w"

definition run_slots :: "nat list \<Rightarrow> world \<Rightarrow> world" where
  "run_slots slots w = fold (\<lambda>k. ShiftMask_at (TranscriptRef k)) slots w"

definition Emit :: "nat \<Rightarrow> world \<Rightarrow> world" where
  "Emit pol w = run_slots (move_slots (pols w pol)) (emit_event (MoveSignal pol) w)"

text \<open>
  Modelled from the spec (section 4.4): \<^verbatim>\<open>Polymerase::Move\<close> advances start and stop
  by one and emits the move signal; \<^verbatim>\<open>Polymerase::MoveBack\<close> takes both back by one
  and emits nothing.
\<close>

definition Polymerase_Move :: "nat \<Rightarrow> world \<Rightarrow> world" where
  "Polymerase_Move pol w =
     Emit pol (update_pol pol (\<lambda>P. P\<lparr>pol_start := pol_start P + 1, pol_stop := pol_stop P + 1\<rparr>) w)"

definition MoveBack :: "nat \<Rightarrow> world \<Rightarrow> world" where
  "MoveBack pol w =
     update_pol pol (\<lambda>P. P\<lparr>pol_start := pol_start P - 1, pol_stop := pol_stop P - 1\<rparr>) w"

text \<open>
  \<^verbatim>\<open>Polymer::Insert\<close> (lines 158-179). \<^verbatim>\<open>std::upper_bound\<close> on a vector sorted by
  start is the first position whose polymerase starts after \<open>pol\<close>.
\<close>

definition upper_bound :: "world \<Rightarrow> nat list \<Rightarrow> nat \<Rightarrow> nat" where
  "upper_bound w ps pol =
     length (takeWhile (\<lambda>q. \<not> pol_start (pols w pol) < pol_start (pols w q)) ps)"

definition insert_at :: "nat \<Rightarrow> 'a \<Rightarrow> 'a list \<Rightarrow> 'a list" where
  "insert_at k x xs = take k xs @ x # drop k xs"

definition erase_at :: "nat \<Rightarrow> 'a list \<Rightarrow> 'a list" where
  "erase_at k xs = take k xs @ drop (Suc k) xs"

definition Insert :: "polymer_ref \<Rightarrow> nat \<Rightarrow> world \<Rightarrow> (error \<times> world) + world" where
  "Insert r pol w =
     (let p = get_polymer r w;
          it = upper_bound w (polymerases p) pol;
          p1 = p\<lparr>polymerases := insert_at it pol (polymerases p)\<rparr>;
          k = pol_stop (pols w pol) - p_start p - 1
      in if k < 0 \<or> nat k \<ge> length (weights p) then Inl (OutOfBounds, put_polymer r p1 w)
         else
           (let weight = weights p ! nat k;
                p2 = p1\<lparr>prop_sum := prop_sum p1 + weight * speed (pols w pol)\<rparr>
            in if it > length (prop_list p2) then Inl (OutOfBounds, put_polymer r p2 w)
               else
                 (let p3 = p2\<lparr>prop_list :=
                                insert_at it (weight * speed (pols w pol)) (prop_list p2)\<rparr>
                  in if length (prop_list p3) \<noteq> length (polymerases p3)
                     then Inl (PropListSize, put_polymer r p3 w)
                     else Inr (put_polymer r p3 w))))"

text \<open>\<^verbatim>\<open>Polymer::Terminate\<close> (lines 115-125); \<^verbatim>\<open>std::find\<close> is by pointer.\<close>

definition find_index :: "nat \<Rightarrow> nat list \<Rightarrow> nat" where
  "find_index pol ps = length (takeWhile (\<lambda>q. q \<noteq> pol) ps)"

definition Terminate :: "polymer_ref \<Rightarrow> nat \<Rightarrow> string \<Rightarrow> world \<Rightarrow> (error \<times> world) + world" where
  "Terminate r pol last_gene w =
     (let p = get_polymer r w;
          index = find_index pol (polymerases p)
      in if index \<ge> length (prop_list p) then Inl (OutOfBounds, w)
         else
           (let p1 = p\<lparr>prop_sum := prop_sum p - prop_list p ! index\<rparr>;
                w1 = emit_event
                       (TerminationSignal (p_index p1) (pol_name (pols w pol)) last_gene
                          (length (polymerases p1)))
                       (put_polymer r p1 w)
            in if index \<ge> length (polymerases p1) then Inl (OutOfBounds, w1)
               else
                 (let p2 = p1\<lparr>polymerases := erase_at index (polymerases p1)\<rparr>;
                      p3 = p2\<lparr>prop_list := erase_at index (prop_list p2)\<rparr>
                  in if length (prop_list p3) \<noteq> length (polymerases p3)
                     then Inl (PropListSize, put_polymer r p3 w1)
                     else Inr (put_polymer r p3 w1))))"

text \<open>
  \<^verbatim>\<open>Polymer::CheckPolCollisions\<close> (lines 320-348). The first comparison is between
  an \<^verbatim>\<open>int\<close> and a \<^verbatim>\<open>size_t\<close>, so a negative left side counts as a huge one.
\<close>

definition CheckPolCollisions :: "polymer_ref \<Rightarrow> int \<Rightarrow> world \<Rightarrow> error + bool" where
  "CheckPolCollisions r pol_index w =
     (let ps = polymerases (get_polymer r w)
      in if pol_index + 1 < 0 \<or> nat (pol_index + 1) \<ge> length ps then Inr False
         else if pol_index < 0 then Inl OutOfBounds
         else
           (let a = pols w (ps ! nat pol_index);
                b = pols w (ps ! nat (pol_index + 1))
            in if pol_stop a \<ge> pol_start b \<and> pol_stop b \<ge> pol_start a then
                 (if pol_stop a > pol_start b then Inl InvalidOverlap else Inr True)
               else Inr False))"

text \<open>\<^verbatim>\<open>Polymer::CheckMaskCollisions\<close> (lines 302-318).\<close>

definition CheckMaskCollisions :: "polymer_ref \<Rightarrow> nat \<Rightarrow> world \<Rightarrow> (error \<times> world) + (bool \<times> world)" where
  "CheckMaskCollisions r pol w =
     (let p = get_polymer r w
      in if mk_start (mask p) \<le> p_stop p \<and> pol_stop (pols w pol) \<ge> mk_start (mask p) then
           (if pol_stop (pols w pol) - mk_start (mask p) > 0 then Inl (InvalidOverlap, w)
            else if Mask_CheckInteraction (mask p) (pol_name (pols w pol))
                 then Inr (False, ShiftMask_at r w)
                 else Inr (True, w))
         else Inr (False, w))"

text \<open>
  \<^verbatim>\<open>Polymer::CheckTermination\<close> (lines 276-300). \<open>emit_loop\<close> is the inner
  \<^verbatim>\<open>for (int i = 0; i < dist; i++)\<close> (\<open>distance\<close> is its \<^verbatim>\<open>dist\<close>). The draws of \<^verbatim>\<open>Random::random()\<close> are the
  values \<open>us 0\<close>, \<open>us 1\<close>, ... in the order they are asked for; \<open>n\<close> counts the draws
  made so far.
\<close>

function emit_loop :: "nat \<Rightarrow> int \<Rightarrow> int \<Rightarrow> world \<Rightarrow> world" where
  "emit_loop pol i distance w =
     (if i < distance then emit_loop pol (i + 1) distance (Emit pol w) else w)"
  by pat_completeness auto
termination
  by (relation "measure (\<lambda>(pol, i, distance, w). nat (distance - i))") auto

declare emit_loop.simps [simp del]

fun CheckTermination_loop ::
  "polymer_ref \<Rightarrow> nat \<Rightarrow> (nat \<Rightarrow> real) \<Rightarrow> nat \<Rightarrow> nat list \<Rightarrow> world \<Rightarrow> (error \<times> world) + (bool \<times> world)" where
  "CheckTermination_loop r pol us n [] w = Inr (False, w)"
| "CheckTermination_loop r pol us n (j # results) w =
     (let t = release_site (get_polymer r w) j
      in if Terminator_CheckInteraction t (pol_name (pols w pol)) (reading_frame (pols w pol))
            \<and> \<not> tm_readthrough t then
           (let random_num = us n
            in if random_num \<le> efficiency t (pol_name (pols w pol)) then
                 (let distance = tm_stop t - pol_stop (pols w pol) + 1;
                      w1 = emit_loop pol 0 distance w
                  in case Terminate r pol (tm_gene t) w1 of
                       Inl e \<Rightarrow> Inl e
                     | Inr w2 \<Rightarrow> Inr (True, w2))
               else CheckTermination_loop r pol us (Suc n) results
                      (put_polymer r (update_release_site j (set_readthrough True) (get_polymer r w)) w))
         else CheckTermination_loop r pol us n results w)"

definition CheckTermination :: "polymer_ref \<Rightarrow> nat \<Rightarrow> (nat \<Rightarrow> real) \<Rightarrow> world \<Rightarrow> (error \<times> world) + (bool \<times> world)" where
  "CheckTermination r pol us w =
     (let p = get_polymer r w
      in CheckTermination_loop r pol us 0
           (findOverlapping (release_intervals p) (release_sites p)
              (pol_start (pols w pol)) (pol_stop (pols w pol)))
           w)"

text \<open>
  \<^verbatim>\<open>Polymer::Move\<close> (lines 201-248). Both range checks compare an \<^verbatim>\<open>int\<close> with a
  \<^verbatim>\<open>size_t\<close>, so a negative index or a negative weight position throws as well.
\<close>

definition Move :: "polymer_ref \<Rightarrow> int \<Rightarrow> (nat \<Rightarrow> real) \<Rightarrow> world \<Rightarrow> (error \<times> world) + world" where
  "Move r pol_index us w =
     (let p = get_polymer r w
      in if pol_index < 0 \<or> nat pol_index \<ge> length (prop_list p) then Inl (InvalidIndex, w)
         else if nat pol_index \<ge> length (polymerases p) then Inl (OutOfBounds, w)
         else
           (let pol = polymerases p ! nat pol_index;
                old_start = pol_start (pols w pol);
                old_stop = pol_stop (pols w pol);
                w1 = Polymerase_Move pol w
            in case CheckPolCollisions r pol_index w1 of
                 Inl e \<Rightarrow> Inl (e, w1)
               | Inr pol_collision \<Rightarrow>
                   if pol_collision then Inr (MoveBack pol w1)
                   else
                     (case CheckMaskCollisions r pol w1 of
                        Inl e \<Rightarrow> Inl e
                      | Inr (mask_collision, w2) \<Rightarrow>
                          if mask_collision then Inr (MoveBack pol w2)
                          else
                            (case CheckTermination r pol us w2 of
                               Inl e \<Rightarrow> Inl e
                             | Inr (terminating, w3) \<Rightarrow>
                                 if terminating then Inr w3
                                 else
                                   (let p3 = CheckBehind old_start (pol_start (pols w3 pol))
                                               (get_polymer r w3);
                                        p4 = CheckAhead old_stop (pol_stop (pols w3 pol)) p3;
                                        k = pol_stop (pols w3 pol) - p_start p4 - 1
                                    in if k < 0 \<or> nat k \<ge> length (weights p4)
                                       then Inl (MissingWeight, put_polymer r p4 w3)
                                       else
                                         (let weight = weights p4 ! nat k;
                                              new_speed = weight * speed (pols w3 pol);
                                              diff = new_speed - prop_list p4 ! nat pol_index
                                          in Inr (put_polymer r
                                                    (p4\<lparr>prop_sum := prop_sum p4 + diff,
                                                        prop_list := (prop_list p4)[nat pol_index := new_speed]\<rparr>)
                                                    w3)))))))"

text \<open>
  Modelled from the spec (section 4.2): choices.hpp is not among the sources.
  \<^verbatim>\<open>Random::WeightedChoice\<close> with equal weights returns one of the items; \<open>u\<close> is
  the uniform draw from [0, 1) that selects it.
\<close>

definition WeightedChoice :: "'a list \<Rightarrow> real \<Rightarrow> 'a" where
  "WeightedChoice items u = items ! min (nat \<lfloor>u * real (length items)\<rfloor>) (length items - 1)"

text \<open>
  \<^verbatim>\<open>Polymer::Bind\<close> (lines 41-94). \<open>elem\<close> is the chosen promoter, as its position in
  the polymer's vector of binding intervals.
\<close>

definition Bind :: "polymer_ref \<Rightarrow> nat \<Rightarrow> string \<Rightarrow> real \<Rightarrow> world \<Rightarrow> (error \<times> world) + world" where
  "Bind r pol promoter_name u w =
     (let p = get_polymer r w;
          results = findOverlapping (binding_intervals p) (binding_sites p)
                      (p_start p) (mk_start (mask p));
          promoter_choices =
            filter (\<lambda>i. pr_name (site p i) = promoter_name \<and> \<not> IsCovered (site p i)) results
      in if promoter_choices = [] then Inl (NoFreePromoter, w)
         else
           (let elem = WeightedChoice promoter_choices u
            in if \<not> CheckInteraction (site p elem) (pol_name (pols w pol))
               then Inl (NoInteraction, w)
               else
                 (let w1 = update_pol pol (\<lambda>P. P\<lparr>pol_start := pr_start (site p elem)\<rparr>) w;
                      w2 = update_pol pol
                             (\<lambda>P. P\<lparr>pol_stop := pr_start (site p elem) + footprint P - 1\<rparr>) w1
                  in if pol_stop (pols w2 pol) \<ge> mk_start (mask p) then Inl (MaskOverlap, w2)
                     else
                       (let p1 = update_site elem SaveState (update_site elem Cover p)
                        in case CoverBindingSite (pr_name (site p1 elem)) p1 of
                             Inl (e, p2) \<Rightarrow> Inl (e, put_polymer r p2 w2)
                           | Inr p2 \<Rightarrow>
                               (case Insert r pol (put_polymer r p2 w2) of
                                  Inl e \<Rightarrow> Inl e
                                | Inr w3 \<Rightarrow>
                                    Inr (if map_of (pr_interactions (site p2 elem)) ''ribosome'' \<noteq> None
                                            \<and> pr_type (site p2 elem) = ''promoter''
                                         then emit_event (IncrementRibo (pr_gene (site p2 elem)) 1) w3
                                         else w3))))))"

text \<open>\<^verbatim>\<open>Transcript::Transcript\<close> (lines 350-360) and \<^verbatim>\<open>Transcript::Bind\<close> (362-368).\<close>

definition Transcript ::
  "string \<Rightarrow> int \<Rightarrow> int \<Rightarrow> promoter interval list \<Rightarrow> terminator interval list \<Rightarrow> mask \<Rightarrow> real list \<Rightarrow> polymer" where
  "Transcript name start stop rbs_intervals stop_site_intervals m ws =
     (Polymer name start stop)\<lparr>mask := m, weights := ws,
        binding_intervals := rbs_intervals, release_intervals := stop_site_intervals\<rparr>"

definition Transcript_Bind :: "nat \<Rightarrow> nat \<Rightarrow> string \<Rightarrow> real \<Rightarrow> world \<Rightarrow> (error \<times> world) + world" where
  "Transcript_Bind k pol promoter_name u w =
     (case Bind (TranscriptRef k) pol promoter_name u w of
        Inl e \<Rightarrow> Inl e
      | Inr w1 \<Rightarrow> Inr (update_pol pol (\<lambda>P. P\<lparr>reading_frame := cpp_mod (pol_start P) 3\<rparr>) w1))"

text \<open>The builders of \<^verbatim>\<open>Genome\<close> (lines 370-436).\<close>

definition Genome :: "string \<Rightarrow> int \<Rightarrow> genome" where
  "Genome name len =
     \<lparr>g_base = Polymer name 1 len,
      transcript_rbs_intervals = [], transcript_stop_site_intervals = [],
      transcript_rbs = [], transcript_stop_sites = [],
      transcript_weights = replicate (nat len) 1, bindings = Map.empty\<rparr>"

definition Genome_Initialize :: "bool \<Rightarrow> genome \<Rightarrow> (error \<times> genome) + genome" where
  "Genome_Initialize appends g =
     (case Initialize appends (g_base g) of
        Inl (e, p) \<Rightarrow> Inl (e, g\<lparr>g_base := p\<rparr>)
      | Inr p \<Rightarrow>
          Inr (g\<lparr>g_base := p,
                 transcript_rbs := IntervalTree (transcript_rbs_intervals g),
                 transcript_stop_sites := IntervalTree (transcript_stop_site_intervals g)\<rparr>))"

definition AddMask :: "int \<Rightarrow> string list \<Rightarrow> genome \<Rightarrow> genome" where
  "AddMask start interactions g =
     g\<lparr>g_base := (g_base g)\<lparr>mask :=
          Mask ''mask'' start (p_stop (g_base g)) (map (\<lambda>name. (name, 1)) interactions)\<rparr>\<rparr>"

definition AddPromoter :: "string \<Rightarrow> int \<Rightarrow> int \<Rightarrow> (string \<times> real) list \<Rightarrow> genome \<Rightarrow> genome" where
  "AddPromoter name start stop interactions g =
     g\<lparr>g_base := (g_base g)\<lparr>binding_intervals :=
          binding_intervals (g_base g) @ [Interval start stop (Promoter name start stop interactions)]\<rparr>,
       bindings := (bindings g)(name \<mapsto> interactions)\<rparr>"

definition AddTerminator :: "string \<Rightarrow> int \<Rightarrow> int \<Rightarrow> (string \<times> real) list \<Rightarrow> genome \<Rightarrow> genome" where
  "AddTerminator name start stop efficiency_map g =
     g\<lparr>g_base := (g_base g)\<lparr>release_intervals :=
          release_intervals (g_base g) @ [Interval start stop (Terminator name start stop efficiency_map)]\<rparr>\<rparr>"

definition AddGene :: "string \<Rightarrow> int \<Rightarrow> int \<Rightarrow> int \<Rightarrow> int \<Rightarrow> real \<Rightarrow> genome \<Rightarrow> genome" where
  "AddGene name start stop rbs_start rbs_stop rbs_strength g =
     (let binding = [(''ribosome'', rbs_strength)];
          term = [(''ribosome'', 1)];
          rbs = (Promoter (name @ ''_rbs'') rbs_start rbs_stop binding)\<lparr>pr_gene := name\<rparr>;
          stop_codon = (Terminator ''stop_codon'' (stop - 1) stop term)
                         \<lparr>tm_reading_frame := Some (cpp_mod start 3), tm_gene := name\<rparr>
      in g\<lparr>transcript_rbs_intervals :=
             transcript_rbs_intervals g @ [Interval (pr_start rbs) (pr_stop rbs) rbs],
           bindings := (bindings g)(name @ ''_rbs'' \<mapsto> binding),
           transcript_stop_site_intervals :=
             transcript_stop_site_intervals g @
               [Interval (tm_start stop_codon) (tm_stop stop_codon) stop_codon]\<rparr>)"

definition AddWeights :: "real list \<Rightarrow> genome \<Rightarrow> error + genome" where
  "AddWeights ws g =
     (if int (length ws) \<noteq> p_stop (g_base g) - p_start (g_base g) + 1 then Inl WeightsLength
      else Inr (g\<lparr>transcript_weights := ws\<rparr>))"

text \<open>
  \<^verbatim>\<open>Genome::BuildTranscript\<close> (lines 452-484) and \<^verbatim>\<open>Genome::Bind\<close> (lines 438-450).
  \<^verbatim>\<open>make_shared\<close> puts the new transcript at the next free place of the store; the
  value returned is its pointer.
\<close>

definition BuildTranscript :: "int \<Rightarrow> int \<Rightarrow> world \<Rightarrow> nat \<times> world" where
  "BuildTranscript start stop w =
     (let g = genome w;
          prom_results = findContained (transcript_rbs_intervals g) (transcript_rbs g) start stop;
          rbs_intervals =
            map (\<lambda>i. let interval = transcript_rbs_intervals g ! i
                      in Interval (iv_start interval) (iv_stop interval) (Clone (iv_value interval)))
                prom_results;
          term_results =
            findContained (transcript_stop_site_intervals g) (transcript_stop_sites g) start stop;
          stop_site_intervals =
            map (\<lambda>i. let interval = transcript_stop_site_intervals g ! i
                      in Interval (iv_start interval) (iv_stop interval)
                           (Terminator_Clone (iv_value interval)))
                term_results;
          m = Mask ''mask'' start stop [];
          transcript = Transcript ''rna'' (p_start (g_base g)) (p_stop (g_base g))
                         rbs_intervals stop_site_intervals m (transcript_weights g)
      in (n_transcripts w,
          w\<lparr>transcripts := (transcripts w)(n_transcripts w := transcript),
            n_transcripts := Suc (n_transcripts w)\<rparr>))"

definition ConnectMember :: "nat \<Rightarrow> nat \<Rightarrow> world \<Rightarrow> world" where
  "ConnectMember pol transcript w =
     update_pol pol (\<lambda>P. P\<lparr>move_slots := move_slots P @ [transcript]\<rparr>) w"

definition Genome_Bind :: "nat \<Rightarrow> string \<Rightarrow> real \<Rightarrow> world \<Rightarrow> (error \<times> world) + world" where
  "Genome_Bind pol promoter_name u w =
     (case Bind GenomeRef pol promoter_name u w of
        Inl e \<Rightarrow> Inl e
      | Inr w1 \<Rightarrow>
          (let (transcript, w2) =
                 BuildTranscript (pol_stop (pols w1 pol)) (p_stop (g_base (genome w1))) w1;
               w3 = ConnectMember pol transcript w2
           in Inr (emit_event (TranscriptSignal transcript) w3)))"

subsection \<open>Example inputs\<close>

text \<open>
  Modelled from the spec (section 3): a new polymerase has its name, footprint and
  speed, and \<open>stop = start + footprint - 1\<close>; it has no slot connected.
\<close>

definition Polymerase :: "string \<Rightarrow> int \<Rightarrow> real \<Rightarrow> polymerase" where
  "Polymerase name fp sp =
     \<lparr>pol_name = name, footprint = fp, speed = sp, pol_start = 0, pol_stop = fp - 1,
      reading_frame = 0, move_slots = []\<rparr>"

definition new_world :: "genome \<Rightarrow> (nat \<Rightarrow> polymerase) \<Rightarrow> world" where
  "new_world g ps =
     \<lparr>pols = ps, genome = g, transcripts = (\<lambda>_. Polymer [] 0 0), n_transcripts = 0, events = []\<rparr>"

text \<open>The state a call leaves behind, whether it returns or throws.\<close>

definition the_state :: "(error \<times> 's) + 's \<Rightarrow> 's" where
  "the_state x = (case x of Inl (e, s) \<Rightarrow> s | Inr s \<Rightarrow> s)"

definition returns :: "'e + 'a \<Rightarrow> bool" where
  "returns x = (case x of Inl e \<Rightarrow> False | Inr a \<Rightarrow> True)"

text \<open>
  Genome A: promoters P at [10, 19] and Q at [20, 29], a terminator at [50, 55] with
  efficiency 0.3, and a gene with its ribosome binding site. In \<open>world_A2\<close> polymerase
  0 is bound at P and polymerase 1 at Q (footprint 10, speed 40).
\<close>

definition genome_A :: genome where
  "genome_A =
     the_state (Genome_Initialize True
       (AddGene ''g1'' 30 60 25 29 1
         (AddTerminator ''T'' 50 55 [(''rnapol'', 3 / 10)]
           (AddPromoter ''Q'' 20 29 [(''rnapol'', 1)]
             (AddPromoter ''P'' 10 19 [(''rnapol'', 1)] (Genome ''g'' 100))))))"

definition world_A0 :: world where
  "world_A0 = new_world genome_A (\<lambda>_. Polymerase ''rnapol'' 10 40)"

definition world_A1 :: world where
  "world_A1 = the_state (Genome_Bind 0 ''P'' 0 world_A0)"

definition world_A2 :: world where
  "world_A2 = the_state (Genome_Bind 1 ''Q'' 0 world_A1)"




text \<open>
  Genome C: a mask from 25 on that admits nobody and a promoter P at [10, 19]; the
  polymerase of \<open>world_C\<close> has footprint 20, so that bound at P it would reach into
  the mask.
\<close>

definition genome_C :: genome where
  "genome_C =
     the_state (Genome_Initialize True
       (AddPromoter ''P'' 10 19 [(''rnapol'', 1)] (AddMask 25 [] (Genome ''g'' 100))))"

definition world_C :: world where
  "world_C = new_world genome_C (\<lambda>_. Polymerase ''rnapol'' 20 40)"

text \<open>
  Genomes D and E: a promoter P at [10, 19] right before a mask that starts at 20. The
  mask of D admits nobody, the mask of E admits \<open>rnapol\<close>. In \<open>world_D1\<close> and
  \<open>world_E1\<close> polymerase 0 (footprint 10) is bound at P, one step before the mask.
\<close>

definition genome_D :: genome where
  "genome_D =
     the_state (Genome_Initialize True
       (AddPromoter ''P'' 10 19 [(''rnapol'', 1)] (AddMask 20 [] (Genome ''g'' 100))))"

definition world_D1 :: world where
  "world_D1 = the_state (Genome_Bind 0 ''P'' 0 (new_world genome_D (\<lambda>_. Polymerase ''rnapol'' 10 40)))"



text \<open>
  Genome M, not yet initialised: a mask from 50 on and a promoter P at [60, 69], under
  the mask.
\<close>

definition genome_M :: genome where
  "genome_M = AddPromoter ''P'' 60 69 [(''rnapol'', 1)] (AddMask 50 [''rnapol''] (Genome ''g'' 100))"







text \<open>
  Genome G has length 6 and promoters P at [1, 2] and Q at [3, 4]; polymerases have
  footprint 2. In \<open>world_G0\<close> polymerase 0 is bound at P (its transcript 0 has the
  mask [2, 6]) and polymerase 1 at Q. Polymerase 0 is then moved five times, each
  time against polymerase 1 (\<open>world_G5\<close>); polymerase 1 moves on to [4, 5]
  (\<open>world_G6\<close>); and polymerase 0 moves to [2, 3] (\<open>world_G7\<close>).
\<close>

definition genome_G :: genome where
  "genome_G =
     the_state (Genome_Initialize True
       (AddPromoter ''Q'' 3 4 [(''rnapol'', 1)]
         (AddPromoter ''P'' 1 2 [(''rnapol'', 1)] (Genome ''g'' 6))))"

definition world_G0 :: world where
  "world_G0 =
     the_state (Genome_Bind 1 ''Q'' 0
       (the_state (Genome_Bind 0 ''P'' 0 (new_world genome_G (\<lambda>_. Polymerase ''rnapol'' 2 40)))))"

definition world_G1 :: world where
  "world_G1 = the_state (Move GenomeRef 0 (\<lambda>_. 1 / 2) world_G0)"

definition world_G2 :: world where
  "world_G2 = the_state (Move GenomeRef 0 (\<lambda>_. 1 / 2) world_G1)"

definition world_G3 :: world where
  "world_G3 = the_state (Move GenomeRef 0 (\<lambda>_. 1 / 2) world_G2)"

definition world_G4 :: world where
  "world_G4 = the_state (Move GenomeRef 0 (\<lambda>_. 1 / 2) world_G3)"

definition world_G5 :: world where
  "world_G5 = the_state (Move GenomeRef 0 (\<lambda>_. 1 / 2) world_G4)"

definition world_G6 :: world where
  "world_G6 = the_state (Move GenomeRef 1 (\<lambda>_. 1 / 2) world_G5)"

definition world_G7 :: world where
  "world_G7 = the_state (Move GenomeRef 0 (\<lambda>_. 1 / 2) world_G6)"

subsection \<open>Predicates used in the statements\<close>

text \<open>
  \<open>same_but_sites p q\<close>: \<open>q\<close> is \<open>p\<close> except for its mask and the state of its binding
  sites, which is all that a mask shift or a cover update can change.
\<close>

definition same_but_sites :: "polymer \<Rightarrow> polymer \<Rightarrow> bool" where
  "same_but_sites p q = (q = p\<lparr>mask := mask q, binding_intervals := binding_intervals q\<rparr>)"

text \<open>
  \<open>quiet p q\<close>: \<open>q\<close> is \<open>p\<close> except for its mask and the state of its binding and
  release sites; occupants, propensities, weights and counts are the same.
\<close>

definition quiet :: "polymer \<Rightarrow> polymer \<Rightarrow> bool" where
  "quiet p q =
     (q = p\<lparr>mask := mask q, binding_intervals := binding_intervals q,
            release_intervals := release_intervals q\<rparr>)"

text \<open>
  \<open>readthrough_raised p q\<close>: \<open>q\<close> is \<open>p\<close> except that some of its terminators have had
  their readthrough flag set.
\<close>

definition readthrough_raised :: "polymer \<Rightarrow> polymer \<Rightarrow> bool" where
  "readthrough_raised p q =
     (q = p\<lparr>release_intervals := release_intervals q\<rparr> \<and>
      list_all2 (\<lambda>a b. b = a \<or> b = a\<lparr>iv_value := set_readthrough True (iv_value a)\<rparr>)
        (release_intervals p) (release_intervals q))"

text \<open>
  The free promoters \<^verbatim>\<open>Bind\<close> chooses from (its \<^verbatim>\<open>promoter_choices\<close>), the promoter
  it then picks, and the polymerase snapped to a promoter starting at \<open>a\<close>.
\<close>

definition promoter_choices :: "polymer \<Rightarrow> string \<Rightarrow> nat list" where
  "promoter_choices p promoter_name =
     filter (\<lambda>i. pr_name (site p i) = promoter_name \<and> \<not> IsCovered (site p i))
       (findOverlapping (binding_intervals p) (binding_sites p) (p_start p) (mk_start (mask p)))"

definition chosen_promoter :: "polymer \<Rightarrow> string \<Rightarrow> real \<Rightarrow> promoter" where
  "chosen_promoter p promoter_name u = site p (WeightedChoice (promoter_choices p promoter_name) u)"

definition snapped :: "int \<Rightarrow> polymerase \<Rightarrow> polymerase" where
  "snapped a P = P\<lparr>pol_start := a, pol_stop := a + footprint P - 1\<rparr>"

text \<open>
  \<open>rolled_back r i w\<close>: in \<^verbatim>\<open>Move(i)\<close> on polymer \<open>r\<close> the step of the polymerase is
  taken back, because \<^verbatim>\<open>CheckPolCollisions\<close> or else \<^verbatim>\<open>CheckMaskCollisions\<close> reports a
  collision after the polymerase has moved.
\<close>

definition rolled_back :: "polymer_ref \<Rightarrow> int \<Rightarrow> world \<Rightarrow> bool" where
  "rolled_back r i w =
     (let pol = polymerases (get_polymer r w) ! nat i;
          w1 = Polymerase_Move pol w
      in case CheckPolCollisions r i w1 of
           Inl e \<Rightarrow> False
         | Inr pol_collision \<Rightarrow>
             pol_collision \<or>
             (case CheckMaskCollisions r pol w1 of
                Inl e \<Rightarrow> False
              | Inr (mask_collision, w2) \<Rightarrow> mask_collision))"

text \<open>
  \<open>readthrough_kept p q\<close>: the terminators of \<open>q\<close> are those of \<open>p\<close>, some with
  their readthrough flag set in addition.
\<close>

definition readthrough_kept :: "polymer \<Rightarrow> polymer \<Rightarrow> bool" where
  "readthrough_kept p q =
     list_all2 (\<lambda>a b. b = a \<or> b = a\<lparr>iv_value := set_readthrough True (iv_value a)\<rparr>)
       (release_intervals p) (release_intervals q)"






section \<open>Properties\<close>

lemma get_put_same: "get_polymer r (put_polymer r p w) = p"
  by (cases r) (simp_all add: get_polymer_def put_polymer_def)

lemma get_put_other: "r \<noteq> r' \<Longrightarrow> get_polymer r (put_polymer r' p w) = get_polymer r w"
  by (cases r; cases r') (simp_all add: get_polymer_def put_polymer_def)


lemma put_put: "put_polymer r p (put_polymer r q w) = put_polymer r p w"
  by (cases r) (simp_all add: get_polymer_def put_polymer_def)

lemma pols_put: "pols (put_polymer r p w) = pols w"
  by (cases r) (simp_all add: put_polymer_def)

lemma events_put: "events (put_polymer r p w) = events w"
  by (cases r) (simp_all add: put_polymer_def)

lemma get_update_pol: "get_polymer r (update_pol pol f w) = get_polymer r w"
  by (cases r) (simp_all add: get_polymer_def update_pol_def)

lemma get_emit_event: "get_polymer r (emit_event e w) = get_polymer r w"
  by (cases r) (simp_all add: get_polymer_def emit_event_def)

lemma pols_emit_event: "pols (emit_event e w) = pols w"
  by (simp add: emit_event_def)

lemma events_emit_event: "events (emit_event e w) = events w @ [e]"
  by (simp add: emit_event_def)

lemma events_update_pol: "events (update_pol pol f w) = events w"
  by (simp add: update_pol_def)

lemma pols_update_pol: "pols (update_pol pol f w) = (pols w)(pol := f (pols w pol))"
  by (simp add: update_pol_def)


lemma same_but_sites_refl: "same_but_sites p p"
  by (simp add: same_but_sites_def)

lemma same_but_sites_trans: "same_but_sites p q \<Longrightarrow> same_but_sites q s \<Longrightarrow> same_but_sites p s"
  by (cases p; cases q; cases s) (simp add: same_but_sites_def)

lemma same_but_sites_update_site: "same_but_sites p (update_site i f p)"
  by (simp add: same_but_sites_def update_site_def)

lemma fold_same_but_sites:
  "(\<And>i q. same_but_sites q (f i q)) \<Longrightarrow> same_but_sites p (fold f xs p)"
proof (induction xs arbitrary: p)
  case Nil show ?case by (simp add: same_but_sites_refl)
next
  case (Cons x xs)
  have "same_but_sites p (f x p)" by (rule Cons.prems)
  moreover have "same_but_sites (f x p) (fold f xs (f x p))" by (rule Cons.IH) (rule Cons.prems)
  ultimately show ?case by (simp add: same_but_sites_trans)
qed

lemma same_but_sites_CheckBehind: "same_but_sites p (CheckBehind a b p)"
  unfolding CheckBehind_def
  by (rule fold_same_but_sites) (simp add: same_but_sites_update_site same_but_sites_refl)


lemma same_but_sites_ShiftMask: "same_but_sites p (ShiftMask p)"
proof -
  have "same_but_sites p (p\<lparr>mask := Recede (mask p)\<rparr>)" by (simp add: same_but_sites_def)
  then show ?thesis
    by (auto simp: ShiftMask_def Let_def same_but_sites_refl
             intro: same_but_sites_trans same_but_sites_CheckBehind)
qed



lemma ShiftMask_at_TranscriptRef:
  "ShiftMask_at (TranscriptRef k) w = w\<lparr>transcripts := (transcripts w)(k := ShiftMask (transcripts w k))\<rparr>"
  by (simp add: ShiftMask_at_def get_polymer_def put_polymer_def)

lemma pols_ShiftMask_at: "pols (ShiftMask_at r w) = pols w"
  by (simp add: ShiftMask_at_def pols_put)

lemma events_ShiftMask_at: "events (ShiftMask_at r w) = events w"
  by (simp add: ShiftMask_at_def events_put)

lemma same_but_sites_ShiftMask_at: "same_but_sites (get_polymer r w) (get_polymer r (ShiftMask_at r' w))"
  by (cases "r = r'")
     (simp_all add: ShiftMask_at_def get_put_same get_put_other same_but_sites_ShiftMask same_but_sites_refl)


lemmas Emit_run_slots = Emit_def

lemma run_slots_Nil: "run_slots [] w = w"
  by (simp add: run_slots_def)

lemma run_slots_Cons: "run_slots (k # ks) w = run_slots ks (ShiftMask_at (TranscriptRef k) w)"
  by (simp add: run_slots_def)

lemma pols_run_slots: "pols (run_slots ks w) = pols w"
  by (induction ks arbitrary: w) (simp_all add: run_slots_Nil run_slots_Cons pols_ShiftMask_at)

lemma events_run_slots: "events (run_slots ks w) = events w"
  by (induction ks arbitrary: w) (simp_all add: run_slots_Nil run_slots_Cons events_ShiftMask_at)

lemma genome_run_slots: "genome (run_slots ks w) = genome w"
  by (induction ks arbitrary: w) (simp_all add: run_slots_Nil run_slots_Cons ShiftMask_at_TranscriptRef)

lemma n_transcripts_run_slots: "n_transcripts (run_slots ks w) = n_transcripts w"
  by (induction ks arbitrary: w) (simp_all add: run_slots_Nil run_slots_Cons ShiftMask_at_TranscriptRef)

lemma transcripts_run_slots:
  "transcripts (run_slots ks w) k = (ShiftMask ^^ count_list ks k) (transcripts w k)"
proof (induction ks arbitrary: w)
  case Nil show ?case by (simp add: run_slots_Nil)
next
  case (Cons a ks)
  show ?case
    by (simp add: run_slots_Cons Cons.IH ShiftMask_at_TranscriptRef funpow_swap1)
qed



lemma run_slots_update_pol: "run_slots ks (update_pol pol f w) = update_pol pol f (run_slots ks w)"
proof (induction ks arbitrary: w)
  case Nil show ?case by (simp add: run_slots_Nil)
next
  case (Cons a ks)
  have "ShiftMask_at (TranscriptRef a) (update_pol pol f w) = update_pol pol f (ShiftMask_at (TranscriptRef a) w)"
    by (simp add: ShiftMask_at_TranscriptRef update_pol_def)
  then show ?case by (simp add: run_slots_Cons Cons.IH)
qed

lemma pols_Emit: "pols (Emit pol w) = pols w"
  by (simp add: Emit_run_slots pols_run_slots pols_emit_event)

lemma events_Emit: "events (Emit pol w) = events w @ [MoveSignal pol]"
  by (simp add: Emit_run_slots events_run_slots events_emit_event)



lemma emit_event_update_pol: "emit_event e (update_pol pol f w) = update_pol pol f (emit_event e w)"
  by (cases w) (simp add: update_pol_def emit_event_def)

lemma Emit_update_pol:
  "move_slots (f (pols w pol)) = move_slots (pols w pol) \<Longrightarrow>
   Emit pol (update_pol pol f w) = update_pol pol f (Emit pol w)"
  by (simp add: Emit_run_slots pols_update_pol run_slots_update_pol emit_event_update_pol)

lemma MoveBack_Polymerase_Move: "MoveBack pol (Polymerase_Move pol w) = Emit pol w"
proof -
  have "Polymerase_Move pol w = update_pol pol (\<lambda>P. P\<lparr>pol_start := pol_start P + 1, pol_stop := pol_stop P + 1\<rparr>) (Emit pol w)"
    unfolding Polymerase_Move_def by (rule Emit_update_pol) simp
  then show ?thesis
    by (simp add: MoveBack_def update_pol_def)
qed

lemma length_insert_at: "length (insert_at k x xs) = Suc (length xs)"
  by (simp add: insert_at_def)

lemma length_erase_at: "k < length xs \<Longrightarrow> length (erase_at k xs) = length xs - 1"
  by (simp add: erase_at_def)







lemma find_index_le: "find_index pol ps \<le> length ps"
  by (simp add: find_index_def length_takeWhile_le)

lemma find_index_less: "pol \<in> set ps \<Longrightarrow> find_index pol ps < length ps"
  unfolding find_index_def
  by (induction ps) auto

lemma nth_find_index: "pol \<in> set ps \<Longrightarrow> ps ! find_index pol ps = pol"
  unfolding find_index_def
  by (induction ps) auto


lemma find_index_less_iff: "find_index pol ps < length ps \<longleftrightarrow> pol \<in> set ps"
proof
  assume "find_index pol ps < length ps"
  then show "pol \<in> set ps"
    unfolding find_index_def
    by (metis (mono_tags, lifting) length_takeWhile_less_P_nth nth_mem takeWhile_eq_all_conv nth_length_takeWhile order.strict_iff_not le_refl)
qed (rule find_index_less)

lemma upper_bound_le: "upper_bound w ps pol \<le> length ps"
  by (simp add: upper_bound_def length_takeWhile_le)

lemma set_insert_at: "set (insert_at k x xs) = insert x (set xs)"
proof -
  have "set (take k xs) \<union> set (drop k xs) = set xs"
    by (metis append_take_drop_id set_append)
  then show ?thesis by (auto simp: insert_at_def)
qed



lemma set_erase_at_distinct: "distinct xs \<Longrightarrow> k < length xs \<Longrightarrow> xs ! k \<notin> set (erase_at k xs)"
proof -
  assume d: "distinct xs" and k: "k < length xs"
  have "xs = take k xs @ xs ! k # drop (Suc k) xs" using k by (rule id_take_nth_drop)
  then have "distinct (take k xs @ xs ! k # drop (Suc k) xs)" using d by simp
  then show ?thesis by (auto simp: erase_at_def)
qed


lemma Terminate_InrD:
  assumes "Terminate r pol g w = Inr w'"
  defines "p \<equiv> get_polymer r w"
  defines "i \<equiv> find_index pol (polymerases p)"
  shows "i < length (prop_list p)" "i < length (polymerases p)"
    and "get_polymer r w' = p\<lparr>prop_sum := prop_sum p - prop_list p ! i,
            polymerases := erase_at i (polymerases p), prop_list := erase_at i (prop_list p)\<rparr>"
    and "pols w' = pols w"
    and "events w' = events w @ [TerminationSignal (p_index p) (pol_name (pols w pol)) g (length (polymerases p))]"
    and "length (erase_at i (prop_list p)) = length (erase_at i (polymerases p))"
    and "r' \<noteq> r \<Longrightarrow> get_polymer r' w' = get_polymer r' w"
  using assms(1) unfolding p_def i_def Terminate_def Let_def
  by (auto split: if_splits simp: get_put_same get_put_other pols_put events_put pols_emit_event
        events_emit_event get_emit_event put_put)

lemma Terminate_Inr:
  assumes "pol \<in> set (polymerases (get_polymer r w))"
      and "length (polymerases (get_polymer r w)) = length (prop_list (get_polymer r w))"
  shows "\<exists>w'. Terminate r pol g w = Inr w'"
  using assms find_index_less [OF assms(1)]
  by (simp add: Terminate_def Let_def length_erase_at)







lemma quiet_refl: "quiet p p"
  by (simp add: quiet_def)





lemma quiet_update_release_site: "quiet p (update_release_site j f p)"
  by (simp add: quiet_def update_release_site_def)



lemma emit_loop_done: "\<not> i < d \<Longrightarrow> emit_loop pol i d w = w"
  by (subst emit_loop.simps) simp




lemma emit_loop_nonpos: "d \<le> 0 \<Longrightarrow> emit_loop pol 0 d w = w"
  by (simp add: emit_loop_done)







lemma readthrough_raised_sites:
  assumes "readthrough_raised p q"
  shows "mask q = mask p" "binding_intervals q = binding_intervals p"
proof -
  from assms have eq: "q = p\<lparr>release_intervals := release_intervals q\<rparr>"
    by (simp only: readthrough_raised_def)
  show "mask q = mask p" by (subst eq) simp
  show "binding_intervals q = binding_intervals p" by (subst eq) simp
qed


lemma readthrough_raised_nth:
  assumes "readthrough_raised p q" "j < length (release_intervals p)"
  shows "release_site q j = release_site p j \<or> release_site q j = set_readthrough True (release_site p j)"
    and "iv_start (release_intervals q ! j) = iv_start (release_intervals p ! j)"
    and "iv_stop (release_intervals q ! j) = iv_stop (release_intervals p ! j)"
proof -
  from assms have "release_intervals q ! j = release_intervals p ! j \<or>
     release_intervals q ! j = (release_intervals p ! j)\<lparr>iv_value := set_readthrough True (iv_value (release_intervals p ! j))\<rparr>"
    by (simp add: readthrough_raised_def list_all2_conv_all_nth)
  then show "release_site q j = release_site p j \<or> release_site q j = set_readthrough True (release_site p j)"
    and "iv_start (release_intervals q ! j) = iv_start (release_intervals p ! j)"
    and "iv_stop (release_intervals q ! j) = iv_stop (release_intervals p ! j)"
    by (auto simp: release_site_def)
qed

lemma readthrough_raised_static:
  assumes "readthrough_raised p q" "j < length (release_intervals p)"
  shows "tm_stop (release_site q j) = tm_stop (release_site p j)"
    "tm_start (release_site q j) = tm_start (release_site p j)"
    "tm_gene (release_site q j) = tm_gene (release_site p j)"
    "tm_name (release_site q j) = tm_name (release_site p j)"
    "efficiency (release_site q j) = efficiency (release_site p j)"
    "Terminator_CheckInteraction (release_site q j) = Terminator_CheckInteraction (release_site p j)"
    "tm_readthrough (release_site p j) \<Longrightarrow> tm_readthrough (release_site q j)"
  using readthrough_raised_nth(1) [OF assms]
  by (auto simp: set_readthrough_def efficiency_def Terminator_CheckInteraction_def fun_eq_iff)









lemma Move_unfold:
  assumes "0 \<le> i" "nat i < length (prop_list (get_polymer r w))" "nat i < length (polymerases (get_polymer r w))"
  shows "Move r i us w =
    (let pol = polymerases (get_polymer r w) ! nat i; w1 = Polymerase_Move pol w in
     case CheckPolCollisions r i w1 of
       Inl e \<Rightarrow> Inl (e, w1)
     | Inr pol_collision \<Rightarrow>
         if pol_collision then Inr (MoveBack pol w1)
         else
           (case CheckMaskCollisions r pol w1 of
              Inl e \<Rightarrow> Inl e
            | Inr (mask_collision, w2) \<Rightarrow>
                if mask_collision then Inr (MoveBack pol w2)
                else
                  (case CheckTermination r pol us w2 of
                     Inl e \<Rightarrow> Inl e
                   | Inr (terminating, w3) \<Rightarrow>
                       if terminating then Inr w3
                       else
                         (let p4 = CheckAhead (pol_stop (pols w pol)) (pol_stop (pols w3 pol))
                                     (CheckBehind (pol_start (pols w pol)) (pol_start (pols w3 pol)) (get_polymer r w3));
                              k = pol_stop (pols w3 pol) - p_start p4 - 1
                          in if k < 0 \<or> nat k \<ge> length (weights p4)
                             then Inl (MissingWeight, put_polymer r p4 w3)
                             else Inr (put_polymer r
                                    (p4\<lparr>prop_sum := prop_sum p4 + (weights p4 ! nat k * speed (pols w3 pol) - prop_list p4 ! nat i),
                                        prop_list := (prop_list p4)[nat i := weights p4 ! nat k * speed (pols w3 pol)]\<rparr>)
                                    w3)))))"
  using assms unfolding Move_def Let_def by simp




lemma events_Polymerase_Move: "events (Polymerase_Move pol w) = events w @ [MoveSignal pol]"
  by (simp add: Polymerase_Move_def events_Emit events_update_pol)




lemma events_MoveBack: "events (MoveBack pol w) = events w"
  by (simp add: MoveBack_def events_update_pol)

lemma CheckMaskCollisions_InrD:
  assumes "CheckMaskCollisions r pol w = Inr (b, w2)"
  shows "pols w2 = pols w" "events w2 = events w"
    "same_but_sites (get_polymer r' w) (get_polymer r' w2)"
    "b \<Longrightarrow> w2 = w"
  using assms unfolding CheckMaskCollisions_def Let_def
  by (auto split: if_splits simp: pols_ShiftMask_at events_ShiftMask_at same_but_sites_ShiftMask_at same_but_sites_refl)



lemma nth_neq_distinct: "distinct ps \<Longrightarrow> i < length ps \<Longrightarrow> j < length ps \<Longrightarrow> j \<noteq> i \<Longrightarrow> ps ! j \<noteq> ps ! i"
  by (simp add: nth_eq_iff_index_eq)





lemma CoverBindingSite_InlD:
  "CoverBindingSite n p = Inl (e, p') \<Longrightarrow> e = NegativeUncovered"
  by (auto simp: CoverBindingSite_def Let_def split: if_splits)

lemma CoverBindingSite_InrD:
  assumes "CoverBindingSite n p = Inr p'"
  shows "polymerases p' = polymerases p" "prop_list p' = prop_list p" "prop_sum p' = prop_sum p"
    "weights p' = weights p" "p_start p' = p_start p" "release_intervals p' = release_intervals p"
    "binding_intervals p' = binding_intervals p" "mask p' = mask p"
  using assms by (auto simp: CoverBindingSite_def Let_def split: if_splits)

lemma Insert_InlD:
  "Insert r pol w = Inl (e, w') \<Longrightarrow> e = OutOfBounds \<or> e = PropListSize"
  unfolding Insert_def Let_def by (auto split: if_splits)

lemma update_pol_twice:
  "update_pol pol (\<lambda>P. P\<lparr>pol_stop := a + footprint P - 1\<rparr>) (update_pol pol (\<lambda>P. P\<lparr>pol_start := a\<rparr>) w)
   = update_pol pol (snapped a) w"
  by (simp add: update_pol_def snapped_def)

lemma Bind_unfold:
  "Bind r pol name u w =
     (let p = get_polymer r w
      in if promoter_choices p name = [] then Inl (NoFreePromoter, w)
         else if \<not> CheckInteraction (chosen_promoter p name u) (pol_name (pols w pol))
              then Inl (NoInteraction, w)
              else
                (let w2 = update_pol pol (snapped (pr_start (chosen_promoter p name u))) w
                 in if pol_stop (pols w2 pol) \<ge> mk_start (mask p) then Inl (MaskOverlap, w2)
                    else
                      (let elem = WeightedChoice (promoter_choices p name) u;
                           p1 = update_site elem SaveState (update_site elem Cover p)
                       in case CoverBindingSite (pr_name (site p1 elem)) p1 of
                            Inl (e, p2) \<Rightarrow> Inl (e, put_polymer r p2 w2)
                          | Inr p2 \<Rightarrow>
                              (case Insert r pol (put_polymer r p2 w2) of
                                 Inl e \<Rightarrow> Inl e
                               | Inr w3 \<Rightarrow>
                                   Inr (if map_of (pr_interactions (site p2 elem)) ''ribosome'' \<noteq> None
                                           \<and> pr_type (site p2 elem) = ''promoter''
                                        then emit_event (IncrementRibo (pr_gene (site p2 elem)) 1) w3
                                        else w3)))))"
  unfolding Bind_def Let_def promoter_choices_def [symmetric] chosen_promoter_def [symmetric] update_pol_twice
  by (simp add: chosen_promoter_def)












lemma Move_pol_collision:
  assumes idx: "0 \<le> i" "nat i < length (prop_list (get_polymer r w))"
      "nat i < length (polymerases (get_polymer r w))"
    and c: "CheckPolCollisions r i (Polymerase_Move (polymerases (get_polymer r w) ! nat i) w) = Inr True"
  shows "Move r i us w = Inr (Emit (polymerases (get_polymer r w) ! nat i) w)"
  unfolding Move_unfold [OF idx] Let_def c
  by (simp add: MoveBack_Polymerase_Move)

lemma CheckMaskCollisions_True:
  "CheckMaskCollisions r pol w = Inr (True, w2) \<Longrightarrow> w2 = w"
  by (rule CheckMaskCollisions_InrD(4)) simp_all

lemma Move_mask_collision:
  assumes idx: "0 \<le> i" "nat i < length (prop_list (get_polymer r w))"
      "nat i < length (polymerases (get_polymer r w))"
    and c: "CheckPolCollisions r i (Polymerase_Move (polymerases (get_polymer r w) ! nat i) w) = Inr False"
    and m: "CheckMaskCollisions r (polymerases (get_polymer r w) ! nat i)
              (Polymerase_Move (polymerases (get_polymer r w) ! nat i) w) = Inr (True, w2)"
  shows "Move r i us w = Inr (Emit (polymerases (get_polymer r w) ! nat i) w)"
  unfolding Move_unfold [OF idx] Let_def c m
  using CheckMaskCollisions_True [OF m]
  by (simp add: MoveBack_Polymerase_Move)

lemma Move_rolled_back:
  assumes idx: "0 \<le> i" "nat i < length (prop_list (get_polymer r w))"
      "nat i < length (polymerases (get_polymer r w))"
    and rb: "rolled_back r i w"
  shows "Move r i us w = Inr (Emit (polymerases (get_polymer r w) ! nat i) w)"
proof -
  let ?pol = "polymerases (get_polymer r w) ! nat i"
  let ?w1 = "Polymerase_Move ?pol w"
  note R = rb [unfolded rolled_back_def Let_def]
  show ?thesis
  proof (cases "CheckPolCollisions r i ?w1")
    case (Inl e)
    with R show ?thesis by simp
  next
    case (Inr c)
    show ?thesis
    proof (cases c)
      case True
      with Inr show ?thesis by (intro Move_pol_collision [OF idx]) simp
    next
      case False
      with R Inr obtain w2 where "CheckMaskCollisions r ?pol ?w1 = Inr (True, w2)"
        by (cases "CheckMaskCollisions r ?pol ?w1") auto
      with Inr False show ?thesis by (intro Move_mask_collision [OF idx, of w2]) simp_all
    qed
  qed
qed




lemma mask_fold_update_site:
  "mask (fold (\<lambda>i q. if c q i then update_site i f q else q) js p) = mask p"
  by (induction js arbitrary: p) (simp_all add: update_site_def)

lemma mask_CheckBehind: "mask (CheckBehind a b p) = mask p"
  unfolding CheckBehind_def by (rule mask_fold_update_site)

lemma mask_CheckAhead: "mask (CheckAhead a b p) = mask p"
  unfolding CheckAhead_def by (rule mask_fold_update_site)

lemma mask_ShiftMask:
  "mask (ShiftMask p) = (if mk_start (mask p) \<le> mk_stop (mask p) then Recede (mask p) else mask p)"
  by (simp add: ShiftMask_def Let_def mask_CheckBehind)

lemma readthrough_kept_refl: "readthrough_kept p p"
  by (simp add: readthrough_kept_def list_all2_conv_all_nth)













lemma Insert_GenomeRef_frame:
  assumes "Insert GenomeRef pol w = Inr w'"
  shows "transcripts w' = transcripts w" "n_transcripts w' = n_transcripts w"
    "pols w' = pols w" "events w' = events w"
    "genome w' = (genome w)\<lparr>g_base := g_base (genome w')\<rparr>"
    "p_start (g_base (genome w')) = p_start (g_base (genome w))"
    "p_stop (g_base (genome w')) = p_stop (g_base (genome w))"
  using assms unfolding Insert_def Let_def
  by (auto split: if_splits simp: put_polymer_def get_polymer_def)

lemma CoverBindingSite_bounds:
  assumes "CoverBindingSite n p = Inr p'"
  shows "p_stop p' = p_stop p"
  using assms by (auto simp: CoverBindingSite_def Let_def split: if_splits)

lemma Bind_GenomeRef_frame:
  assumes B: "Bind GenomeRef pol name u w = Inr w1"
  shows "transcripts w1 = transcripts w" "n_transcripts w1 = n_transcripts w"
    "pols w1 = (pols w)(pol := snapped (pr_start (chosen_promoter (g_base (genome w)) name u)) (pols w pol))"
    "genome w1 = (genome w)\<lparr>g_base := g_base (genome w1)\<rparr>"
    "p_start (g_base (genome w1)) = p_start (g_base (genome w))"
    "p_stop (g_base (genome w1)) = p_stop (g_base (genome w))"
proof -
  let ?p = "get_polymer GenomeRef w"
  let ?a = "pr_start (chosen_promoter ?p name u)"
  let ?w2 = "update_pol pol (snapped ?a) w"
  let ?elem = "WeightedChoice (promoter_choices ?p name) u"
  let ?p1 = "update_site ?elem SaveState (update_site ?elem Cover ?p)"
  have gp: "?p = g_base (genome w)" by (simp add: get_polymer_def)
  note U = B [unfolded Bind_unfold Let_def]
  have c: "promoter_choices ?p name \<noteq> []"
    using U by (cases "promoter_choices ?p name = []") simp_all
  have i: "CheckInteraction (chosen_promoter ?p name u) (pol_name (pols w pol))"
    using U c by (cases "CheckInteraction (chosen_promoter ?p name u) (pol_name (pols w pol))") simp_all
  have m: "\<not> pol_stop (pols ?w2 pol) \<ge> mk_start (mask ?p)"
    using U c i by (cases "pol_stop (pols ?w2 pol) \<ge> mk_start (mask ?p)") simp_all
  have "\<exists>p2 w3. CoverBindingSite (pr_name (site ?p1 ?elem)) ?p1 = Inr p2
          \<and> Insert GenomeRef pol (put_polymer GenomeRef p2 ?w2) = Inr w3
          \<and> (w1 = w3 \<or> (\<exists>e. w1 = emit_event e w3))"
  proof (cases "CoverBindingSite (pr_name (site ?p1 ?elem)) ?p1")
    case (Inl ep)
    obtain e' p2 where "ep = (e', p2)" by (cases ep)
    with Inl U c i m show ?thesis by simp
  next
    case (Inr p2)
    show ?thesis
    proof (cases "Insert GenomeRef pol (put_polymer GenomeRef p2 ?w2)")
      case (Inl ew)
      with Inr U c i m show ?thesis by simp
    next
      case Inr2: (Inr w3)
      with Inr U c i m show ?thesis by (auto split: if_splits)
    qed
  qed
  then obtain p2 w3 where C: "CoverBindingSite (pr_name (site ?p1 ?elem)) ?p1 = Inr p2"
    and I: "Insert GenomeRef pol (put_polymer GenomeRef p2 ?w2) = Inr w3"
    and W: "w1 = w3 \<or> (\<exists>e. w1 = emit_event e w3)" by blast
  note f = Insert_GenomeRef_frame [OF I]
  have s: "p_start p2 = p_start (g_base (genome w))" "p_stop p2 = p_stop (g_base (genome w))"
    using CoverBindingSite_InrD(5) [OF C] CoverBindingSite_bounds [OF C]
    by (simp_all add: update_site_def get_polymer_def)
  have t: "transcripts w1 = transcripts w3" "n_transcripts w1 = n_transcripts w3"
    "pols w1 = pols w3" "genome w1 = genome w3"
    using W by (auto simp: emit_event_def)
  show "transcripts w1 = transcripts w" using t f by (simp add: put_polymer_def update_pol_def)
  show "n_transcripts w1 = n_transcripts w" using t f by (simp add: put_polymer_def update_pol_def)
  show "pols w1 = (pols w)(pol := snapped (pr_start (chosen_promoter (g_base (genome w)) name u)) (pols w pol))"
    using t f by (simp add: put_polymer_def update_pol_def get_polymer_def)
  show "genome w1 = (genome w)\<lparr>g_base := g_base (genome w1)\<rparr>"
    unfolding t(4) by (subst f(5)) (simp add: put_polymer_def update_pol_def)
  show "p_start (g_base (genome w1)) = p_start (g_base (genome w))"
    unfolding t(4) f(6) using s by (simp add: put_polymer_def update_pol_def)
  show "p_stop (g_base (genome w1)) = p_stop (g_base (genome w))"
    unfolding t(4) f(7) using s by (simp add: put_polymer_def update_pol_def)
qed

lemma transcripts_Emit:
  "transcripts (Emit pol w) k = (ShiftMask ^^ count_list (move_slots (pols w pol)) k) (transcripts w k)"
  by (simp add: Emit_def transcripts_run_slots emit_event_def)

lemma transcripts_Polymerase_Move:
  "transcripts (Polymerase_Move pol w) k =
     (ShiftMask ^^ count_list (move_slots (pols w pol)) k) (transcripts w k)"
  by (simp add: Polymerase_Move_def transcripts_Emit update_pol_def)

lemma findContained_IntervalTree:
  "map ((!) ivs) (findContained ivs tree a b) =
     filter (\<lambda>iv. a \<le> iv_start iv \<and> iv_stop iv \<le> b) (map ((!) ivs) tree)"
  by (simp add: findContained_def filter_map comp_def)

lemma Genome_Bind_InrD:
  assumes "Genome_Bind pol name u w = Inr w'"
  obtains w1 where "Bind GenomeRef pol name u w = Inr w1"
    "w' = emit_event (TranscriptSignal (n_transcripts w1))
            (ConnectMember pol (n_transcripts w1)
               (snd (BuildTranscript (pol_stop (pols w1 pol)) (p_stop (g_base (genome w1))) w1)))"
proof (cases "Bind GenomeRef pol name u w")
  case (Inl e)
  with assms show thesis by (simp add: Genome_Bind_def)
next
  case (Inr w1)
  let ?B = "BuildTranscript (pol_stop (pols w1 pol)) (p_stop (g_base (genome w1))) w1"
  have k: "fst ?B = n_transcripts w1"
    by (simp add: BuildTranscript_def Let_def)
  have "w' = emit_event (TranscriptSignal (fst ?B)) (ConnectMember pol (fst ?B) (snd ?B))"
    using Inr assms by (simp add: Genome_Bind_def Let_def case_prod_beta)
  then show thesis unfolding k by (rule that [OF Inr])
qed


lemma returns_the_state: "returns x \<Longrightarrow> x = Inr (the_state x)"
  by (cases x) (simp_all add: returns_def the_state_def)

lemma BuildTranscript_clones:
  "map (\<lambda>i. Interval (iv_start (ivs ! i)) (iv_stop (ivs ! i)) (f (iv_value (ivs ! i))))
       (findContained ivs tree a b) =
   map (\<lambda>iv. Interval (iv_start iv) (iv_stop iv) (f (iv_value iv)))
       (filter (\<lambda>iv. a \<le> iv_start iv \<and> iv_stop iv \<le> b) (map ((!) ivs) tree))"
  unfolding findContained_IntervalTree [symmetric] by (simp add: Let_def comp_def)

lemma Genome_Bind_frame:
  assumes G: "Genome_Bind pol name u w = Inr w'"
  shows "\<exists>w1. Bind GenomeRef pol name u w = Inr w1 \<and>
           events w' = events w1 @ [TranscriptSignal (n_transcripts w)]"
    and "n_transcripts w' = Suc (n_transcripts w)"
    and "k' \<noteq> n_transcripts w \<Longrightarrow> transcripts w' k' = transcripts w k'"
    and "pols w' pol =
           (snapped (pr_start (chosen_promoter (g_base (genome w)) name u)) (pols w pol))
             \<lparr>move_slots := move_slots (pols w pol) @ [n_transcripts w]\<rparr>"
    and "transcripts w' (n_transcripts w) =
           Transcript ''rna'' (p_start (g_base (genome w))) (p_stop (g_base (genome w)))
             (map (\<lambda>iv. Interval (iv_start iv) (iv_stop iv) (Clone (iv_value iv)))
                (filter (\<lambda>iv. pol_stop (pols w' pol) \<le> iv_start iv \<and> iv_stop iv \<le> p_stop (g_base (genome w)))
                   (map ((!) (transcript_rbs_intervals (genome w))) (transcript_rbs (genome w)))))
             (map (\<lambda>iv. Interval (iv_start iv) (iv_stop iv) (Terminator_Clone (iv_value iv)))
                (filter (\<lambda>iv. pol_stop (pols w' pol) \<le> iv_start iv \<and> iv_stop iv \<le> p_stop (g_base (genome w)))
                   (map ((!) (transcript_stop_site_intervals (genome w))) (transcript_stop_sites (genome w)))))
             (Mask ''mask'' (pol_stop (pols w' pol)) (p_stop (g_base (genome w))) [])
             (transcript_weights (genome w))"
proof -
  from Genome_Bind_InrD [OF G] obtain w1 where B: "Bind GenomeRef pol name u w = Inr w1"
    and W: "w' = emit_event (TranscriptSignal (n_transcripts w1))
            (ConnectMember pol (n_transcripts w1)
               (snd (BuildTranscript (pol_stop (pols w1 pol)) (p_stop (g_base (genome w1))) w1)))"
    by blast
  note f = Bind_GenomeRef_frame [OF B]
  have tmpl: "transcript_rbs_intervals (genome w1) = transcript_rbs_intervals (genome w)"
    "transcript_rbs (genome w1) = transcript_rbs (genome w)"
    "transcript_stop_site_intervals (genome w1) = transcript_stop_site_intervals (genome w)"
    "transcript_stop_sites (genome w1) = transcript_stop_sites (genome w)"
    "transcript_weights (genome w1) = transcript_weights (genome w)"
    by (subst f(4), simp)+
  have P: "pols w' = (pols w1)(pol := (pols w1 pol)\<lparr>move_slots := move_slots (pols w1 pol) @ [n_transcripts w1]\<rparr>)"
    unfolding W by (simp add: emit_event_def ConnectMember_def update_pol_def BuildTranscript_def Let_def)
  have s: "pol_stop (pols w' pol) = pol_stop (pols w1 pol)"
    unfolding P by simp
  show "\<exists>w1. Bind GenomeRef pol name u w = Inr w1 \<and>
           events w' = events w1 @ [TranscriptSignal (n_transcripts w)]"
    using B unfolding W f(2) [symmetric]
    by (simp add: emit_event_def ConnectMember_def update_pol_def BuildTranscript_def Let_def)
  show "n_transcripts w' = Suc (n_transcripts w)"
    unfolding W f(2) [symmetric]
    by (simp add: emit_event_def ConnectMember_def update_pol_def BuildTranscript_def Let_def)
  show "transcripts w' k' = transcripts w k'" if "k' \<noteq> n_transcripts w"
    using that unfolding W f(2) [symmetric] f(1) [symmetric]
    by (simp add: emit_event_def ConnectMember_def update_pol_def BuildTranscript_def Let_def)
  show "pols w' pol =
           (snapped (pr_start (chosen_promoter (g_base (genome w)) name u)) (pols w pol))
             \<lparr>move_slots := move_slots (pols w pol) @ [n_transcripts w]\<rparr>"
    unfolding P f(2) f(3) by (simp add: snapped_def)
  show "transcripts w' (n_transcripts w) =
           Transcript ''rna'' (p_start (g_base (genome w))) (p_stop (g_base (genome w)))
             (map (\<lambda>iv. Interval (iv_start iv) (iv_stop iv) (Clone (iv_value iv)))
                (filter (\<lambda>iv. pol_stop (pols w' pol) \<le> iv_start iv \<and> iv_stop iv \<le> p_stop (g_base (genome w)))
                   (map ((!) (transcript_rbs_intervals (genome w))) (transcript_rbs (genome w)))))
             (map (\<lambda>iv. Interval (iv_start iv) (iv_stop iv) (Terminator_Clone (iv_value iv)))
                (filter (\<lambda>iv. pol_stop (pols w' pol) \<le> iv_start iv \<and> iv_stop iv \<le> p_stop (g_base (genome w)))
                   (map ((!) (transcript_stop_site_intervals (genome w))) (transcript_stop_sites (genome w)))))
             (Mask ''mask'' (pol_stop (pols w' pol)) (p_stop (g_base (genome w))) [])
             (transcript_weights (genome w))"
    unfolding s f(2) [symmetric] unfolding W
    by (simp add: emit_event_def ConnectMember_def update_pol_def BuildTranscript_def BuildTranscript_clones
          Let_def tmpl f(5) f(6))
qed

lemmas eval_defs =
  Polymerase_def new_world_def the_state_def returns_def
  Genome_def AddGene_def AddTerminator_def AddPromoter_def AddMask_def Genome_Initialize_def Initialize_def
  Polymer_def Mask_def Interval_def Promoter_def Terminator_def IntervalTree_def findOverlapping_def
  findContained_def CoverBindingSite_def UncoverBindingSite_def Initialize_uncover_def update_site_def
  site_def Cover_def Uncover_def SaveState_def IsCovered_def CheckInteraction_def Clone_def
  Terminator_CheckInteraction_def efficiency_def set_readthrough_def Terminator_Clone_def
  Mask_CheckInteraction_def Recede_def release_site_def update_release_site_def CheckAhead_def
  CheckBehind_def ShiftMask_def get_polymer_def put_polymer_def update_pol_def emit_event_def cpp_mod_def
  ShiftMask_at_def run_slots_def Emit_def Polymerase_Move_def MoveBack_def upper_bound_def insert_at_def
  erase_at_def Insert_def find_index_def Terminate_def CheckPolCollisions_def CheckMaskCollisions_def
  CheckTermination_def Move_def WeightedChoice_def Bind_def Transcript_def Transcript_Bind_def
  BuildTranscript_def ConnectMember_def Genome_Bind_def Let_def emit_loop.simps


lemmas world_A_defs = world_A2_def world_A1_def world_A0_def genome_A_def





text \<open>
  C2. The claim is what the comments of \<^verbatim>\<open>Polymer::Initialize\<close> say (``Cover all masked
  sites'', ``Make sure all unmasked sites are uncovered''), and the code does not do
  it: the second query runs from \<^verbatim>\<open>start_\<close> to \<^verbatim>\<open>mask_stop\<close> instead of
  \<^verbatim>\<open>mask_start\<close>, and its loop uncovers every promoter it gets without looking at
  its state. On genome M (mask [50, 100], promoter P at [60, 69] under the mask)
  \<^verbatim>\<open>Initialize\<close> returns with P uncovered and counted as uncovered: once if the
  interval query replaces the contents of its output vector, twice if it appends to
  them (the masked results of the first query are still there).
\<close>

theorem Initialize_uncovers_masked_promoter:
  "mk_start (mask (g_base genome_M)) = 50 \<and> mk_stop (mask (g_base genome_M)) = 100 \<and>
   pr_start (site (g_base genome_M) 0) = 60 \<and> pr_stop (site (g_base genome_M) 0) = 69 \<and>
   (case Initialize appends (g_base genome_M) of
      Inl e \<Rightarrow> False
    | Inr p \<Rightarrow> \<not> IsCovered (site p 0) \<and> \<not> pr_previously_covered (site p 0) \<and>
              uncovered p ''P'' = Some (if appends then 2 else 1))"
  by (cases appends) (simp_all add: genome_M_def eval_defs del: not_None_eq)

text \<open>
  C3, as the claim states it, fails: \<^verbatim>\<open>Bind\<close> sets the polymerase's start and stop
  (lines 71-72) before it tests for the mask (line 74). In \<open>world_C\<close> the polymerase
  stands at [0, 19]; binding it to the promoter at [10, 19] throws \<open>MaskOverlap\<close> and
  leaves it at [10, 29].
\<close>

theorem Bind_MaskOverlap_moves_polymerase:
  "(case Bind GenomeRef 0 ''P'' 0 world_C of
      Inl (e, w') \<Rightarrow> e = MaskOverlap \<and> pol_start (pols w' 0) = 10 \<and> pol_stop (pols w' 0) = 29
    | Inr w' \<Rightarrow> False) \<and>
   pol_start (pols world_C 0) = 0 \<and> pol_stop (pols world_C 0) = 19"
  by (simp add: world_C_def genome_C_def eval_defs del: not_None_eq)

text \<open>
  C3, amended. When \<^verbatim>\<open>Bind\<close> throws \<open>NoFreePromoter\<close> or \<open>NoInteraction\<close>, nothing has
  been changed. When it throws \<open>MaskOverlap\<close>, the polymer (occupants, propensities,
  \<open>prop_sum\<close>, uncovered counts, site states), every other polymer, the signals
  emitted and every other polymerase are unchanged, and \<open>pol\<close> itself has been
  snapped to the chosen promoter: its start is the promoter's start and its stop is
  that start plus its footprint minus one.
\<close>

theorem Bind_errors_leave_state:
  assumes "Bind r pol promoter_name u w = Inl (e, w')"
  shows "(e = NoFreePromoter \<or> e = NoInteraction \<longrightarrow> w' = w) \<and>
         (e = MaskOverlap \<longrightarrow>
            w' = update_pol pol (snapped (pr_start (chosen_promoter (get_polymer r w) promoter_name u))) w \<and>
            (\<forall>r'. get_polymer r' w' = get_polymer r' w) \<and> events w' = events w \<and>
            (\<forall>other. other \<noteq> pol \<longrightarrow> pols w' other = pols w other))"
proof -
  let ?p = "get_polymer r w"
  let ?w2 = "update_pol pol (snapped (pr_start (chosen_promoter ?p promoter_name u))) w"
  let ?elem = "WeightedChoice (promoter_choices ?p promoter_name) u"
  let ?p1 = "update_site ?elem SaveState (update_site ?elem Cover ?p)"
  note U = assms [unfolded Bind_unfold Let_def]
  have frame: "(\<forall>r'. get_polymer r' ?w2 = get_polymer r' w) \<and> events ?w2 = events w \<and>
            (\<forall>other. other \<noteq> pol \<longrightarrow> pols ?w2 other = pols w other)"
    by (simp add: get_update_pol events_update_pol pols_update_pol)
  show ?thesis
  proof (cases "promoter_choices ?p promoter_name = []")
    case True
    with U show ?thesis by simp
  next
    case c: False
    show ?thesis
    proof (cases "CheckInteraction (chosen_promoter ?p promoter_name u) (pol_name (pols w pol))")
      case False
      with U c show ?thesis by simp
    next
      case i: True
      show ?thesis
      proof (cases "pol_stop (pols ?w2 pol) \<ge> mk_start (mask ?p)")
        case True
        with U c i have "e = MaskOverlap" "w' = ?w2" by simp_all
        with frame show ?thesis by simp
      next
        case m: False
        have "e \<noteq> NoFreePromoter \<and> e \<noteq> NoInteraction \<and> e \<noteq> MaskOverlap"
        proof (cases "CoverBindingSite (pr_name (site ?p1 ?elem)) ?p1")
          case (Inl ep)
          obtain e' p2 where "ep = (e', p2)" by (cases ep)
          with Inl U c i m have "e = e'" "CoverBindingSite (pr_name (site ?p1 ?elem)) ?p1 = Inl (e', p2)"
            by simp_all
          with CoverBindingSite_InlD [of "pr_name (site ?p1 ?elem)" ?p1 e' p2] show ?thesis by simp
        next
          case (Inr p2)
          show ?thesis
          proof (cases "Insert r pol (put_polymer r p2 ?w2)")
            case (Inl ew)
            obtain e' w3 where "ew = (e', w3)" by (cases ew)
            with Inl Inr U c i m have "e = e'" "Insert r pol (put_polymer r p2 ?w2) = Inl (e', w3)"
              by simp_all
            with Insert_InlD [of r pol "put_polymer r p2 ?w2" e' w3] show ?thesis by auto
          next
            case ok: (Inr w3)
            with Inr U c i m show ?thesis by simp
          qed
        qed
        then show ?thesis by simp
      qed
    qed
  qed
qed

theorem Bind_errors_leave_state_witness:
  "Bind GenomeRef 0 ''P'' 0 world_C =
     Inl (MaskOverlap, update_pol 0 (snapped 10) world_C) \<and>
   get_polymer GenomeRef (update_pol 0 (snapped 10) world_C) = get_polymer GenomeRef world_C \<and>
   events (update_pol 0 (snapped 10) world_C) = events world_C \<and>
   pols (update_pol 0 (snapped 10) world_C) 1 = pols world_C 1 \<and>
   Bind GenomeRef 0 ''Q'' 0 world_C = Inl (NoFreePromoter, world_C)"
proof -
  have 1: "Bind GenomeRef 0 ''P'' 0 world_C = Inl (MaskOverlap, the_state (Bind GenomeRef 0 ''P'' 0 world_C))"
    by (simp add: world_C_def genome_C_def eval_defs del: not_None_eq)
  have 2: "pr_start (chosen_promoter (get_polymer GenomeRef world_C) ''P'' 0) = 10"
    by (simp add: world_C_def genome_C_def chosen_promoter_def promoter_choices_def eval_defs del: not_None_eq)
  have 3: "Bind GenomeRef 0 ''Q'' 0 world_C = Inl (NoFreePromoter, the_state (Bind GenomeRef 0 ''Q'' 0 world_C))"
    by (simp add: world_C_def genome_C_def eval_defs del: not_None_eq)
  from Bind_errors_leave_state [OF 1] Bind_errors_leave_state [OF 3] 1 2 3 show ?thesis
    by (simp add: the_state_def)
qed
















text \<open>
  C8. For every call \<^verbatim>\<open>Terminate(pol, last_gene)\<close> with \<open>pol\<close> among the occupants (and
  the two vectors of one length, as the invariant has it), the call returns; it has
  subtracted the propensity cached for \<open>pol\<close> from \<open>prop_sum\<close>; it has emitted
  \<^verbatim>\<open>termination_signal(index_, pol.name, last_gene)\<close> while the polymer still held all
  its occupants, \<open>pol\<close> included (the signal is observed with the number of occupants
  before the call); and it has erased position \<open>index\<close> (the first position of \<open>pol\<close>)
  from both vectors, which have one length again on exit.
\<close>

theorem Terminate_removes_occupant:
  assumes "pol \<in> set (polymerases (get_polymer r w))"
      and "length (polymerases (get_polymer r w)) = length (prop_list (get_polymer r w))"
  shows "\<exists>w'. Terminate r pol last_gene w = Inr w' \<and>
           (let p = get_polymer r w; p' = get_polymer r w'; index = find_index pol (polymerases p)
            in index < length (polymerases p) \<and> polymerases p ! index = pol \<and>
               prop_sum p' = prop_sum p - prop_list p ! index \<and>
               events w' = events w @
                 [TerminationSignal (p_index p) (pol_name (pols w pol)) last_gene (length (polymerases p))] \<and>
               polymerases p' = erase_at index (polymerases p) \<and>
               prop_list p' = erase_at index (prop_list p) \<and>
               length (polymerases p') = length (polymerases p) - 1 \<and>
               length (polymerases p') = length (prop_list p'))"
proof -
  from Terminate_Inr [OF assms] obtain w' where T: "Terminate r pol last_gene w = Inr w'" ..
  note D = Terminate_InrD [OF T]
  have "polymerases (get_polymer r w) ! find_index pol (polymerases (get_polymer r w)) = pol"
    using assms(1) by (rule nth_find_index)
  with D T show ?thesis
    by (simp add: Let_def length_erase_at)
qed

theorem Terminate_removes_occupant_witness:
  "polymerases (get_polymer GenomeRef world_A2) = [0, 1] \<and>
   prop_list (get_polymer GenomeRef world_A2) = [40, 40] \<and>
   prop_sum (get_polymer GenomeRef world_A2) = 80 \<and>
   (\<exists>w'. Terminate GenomeRef 1 ''g1'' world_A2 = Inr w' \<and>
      polymerases (get_polymer GenomeRef w') = [0] \<and>
      prop_list (get_polymer GenomeRef w') = [40] \<and>
      prop_sum (get_polymer GenomeRef w') = 40 \<and>
      last (events w') = TerminationSignal 0 ''rnapol'' ''g1'' 2)"
proof -
  have a: "polymerases (get_polymer GenomeRef world_A2) = [0, 1]"
    "prop_list (get_polymer GenomeRef world_A2) = [40, 40]"
    "prop_sum (get_polymer GenomeRef world_A2) = 80"
    "p_index (get_polymer GenomeRef world_A2) = 0"
    "pol_name (pols world_A2 1) = ''rnapol''"
    by (simp_all add: world_A2_def world_A1_def world_A0_def genome_A_def eval_defs)
  have "(1::nat) \<in> set (polymerases (get_polymer GenomeRef world_A2))"
    "length (polymerases (get_polymer GenomeRef world_A2)) = length (prop_list (get_polymer GenomeRef world_A2))"
    by (simp_all add: a)
  from Terminate_removes_occupant [OF this, of "''g1''"] a show ?thesis
    by (auto simp: Let_def find_index_def erase_at_def)
qed

text \<open>
  C9, as the claim states it, fails in one part: a step of the parent polymerase
  recedes the mask of its transcript only while that mask is not exhausted, because
  \<^verbatim>\<open>ShiftMask\<close> (lines 106-113) recedes under the guard
  \<^verbatim>\<open>mask_.start() <= mask_.stop()\<close>. On genome G polymerase 0 is bound at [1, 2] and
  polymerase 1 at [3, 4]; the transcript of polymerase 0 has the mask [2, 6]. Five
  calls \<^verbatim>\<open>Move(0)\<close> are rolled back against polymerase 1, and each emits the move
  signal, so that the mask of the transcript starts at 7, past its stop. Polymerase 1
  then moves to [4, 5], and the next \<^verbatim>\<open>Move(0)\<close> takes polymerase 0 from [1, 2] to
  [2, 3] and emits its move signal: the mask of its transcript is [7, 6] before and
  after. Every call of the run returns.
\<close>

theorem parent_step_keeps_exhausted_mask:
  "returns (Genome_Bind 0 ''P'' 0 (new_world genome_G (\<lambda>_. Polymerase ''rnapol'' 2 40))) \<and>
   returns (Genome_Bind 1 ''Q'' 0
      (the_state (Genome_Bind 0 ''P'' 0 (new_world genome_G (\<lambda>_. Polymerase ''rnapol'' 2 40))))) \<and>
   list_all (\<lambda>w. returns (Move GenomeRef 0 (\<lambda>_. 1 / 2) w))
      [world_G0, world_G1, world_G2, world_G3, world_G4, world_G6] \<and>
   returns (Move GenomeRef 1 (\<lambda>_. 1 / 2) world_G5) \<and>
   map (\<lambda>w. (pol_start (pols w 0), pol_stop (pols w 0), mk_start (mask (transcripts w 0))))
      [world_G0, world_G1, world_G2, world_G3, world_G4, world_G5, world_G6, world_G7] =
      [(1, 2, 2), (1, 2, 3), (1, 2, 4), (1, 2, 5), (1, 2, 6), (1, 2, 7), (1, 2, 7), (2, 3, 7)] \<and>
   move_slots (pols world_G6 0) = [0] \<and>
   events world_G7 = events world_G6 @ [MoveSignal 0] \<and>
   mask (transcripts world_G6 0) = Mask ''mask'' 7 6 [] \<and>
   mask (transcripts world_G7 0) = Mask ''mask'' 7 6 []"
  by (simp add: world_G7_def world_G6_def world_G5_def world_G4_def world_G3_def world_G2_def
        world_G1_def world_G0_def genome_G_def eval_defs del: not_None_eq)

text \<open>
  C9, amended. When \<^verbatim>\<open>Genome::Bind\<close> of \<open>pol\<close> returns, \<open>pol\<close> stands at the chosen
  promoter, and with \<open>s\<close> its stop and \<open>e\<close> the stop of the genome:
  one transcript has been made, at the next free place \<open>k\<close> of the store, and no other
  transcript has changed; its binding and release intervals are the clones of exactly
  the template intervals in the two trees that lie inside [s, e]
  (\<open>s \<le> start\<close> and \<open>stop \<le> e\<close>), in stored order; its mask is [s, e] with no
  interactions; its start and stop are those of the genome, not s and e; its weights
  are \<^verbatim>\<open>transcript_weights_\<close>; the move signal of \<open>pol\<close> has one more slot, the
  \<^verbatim>\<open>ShiftMask\<close> of the new transcript; and \<^verbatim>\<open>transcript_signal_\<close> has been emitted
  once, with the new transcript, after everything \<^verbatim>\<open>Polymer::Bind\<close> emitted.
  From then on, in every state where the slots of \<open>pol\<close> are these, a step of \<open>pol\<close>
  runs \<^verbatim>\<open>ShiftMask\<close> on the new transcript once: the start of its mask goes up by one
  if the mask is not exhausted (start \<open>\<le>\<close> stop) and stays otherwise. (That no slot of
  \<open>pol\<close> was connected to place \<open>k\<close> before says that the pointer is fresh.)
\<close>

theorem Genome_Bind_builds_transcript:
  assumes "Genome_Bind pol promoter_name u w = Inr w'"
  defines "g \<equiv> genome w"
      and "k \<equiv> n_transcripts w"
      and "s \<equiv> pol_stop (pols w' pol)"
      and "e \<equiv> p_stop (g_base (genome w))"
  shows "pols w' pol =
           (snapped (pr_start (chosen_promoter (g_base g) promoter_name u)) (pols w pol))
             \<lparr>move_slots := move_slots (pols w pol) @ [k]\<rparr> \<and>
         n_transcripts w' = Suc k \<and>
         (\<forall>k'. k' \<noteq> k \<longrightarrow> transcripts w' k' = transcripts w k') \<and>
         transcripts w' k =
           Transcript ''rna'' (p_start (g_base g)) (p_stop (g_base g))
             (map (\<lambda>iv. Interval (iv_start iv) (iv_stop iv) (Clone (iv_value iv)))
                (filter (\<lambda>iv. s \<le> iv_start iv \<and> iv_stop iv \<le> e)
                   (map ((!) (transcript_rbs_intervals g)) (transcript_rbs g))))
             (map (\<lambda>iv. Interval (iv_start iv) (iv_stop iv) (Terminator_Clone (iv_value iv)))
                (filter (\<lambda>iv. s \<le> iv_start iv \<and> iv_stop iv \<le> e)
                   (map ((!) (transcript_stop_site_intervals g)) (transcript_stop_sites g))))
             (Mask ''mask'' s e []) (transcript_weights g) \<and>
         (\<exists>w1. Bind GenomeRef pol promoter_name u w = Inr w1 \<and>
            events w' = events w1 @ [TranscriptSignal k]) \<and>
         (\<forall>W :: world. move_slots (pols W pol) = move_slots (pols w' pol) \<longrightarrow>
              k \<notin> set (move_slots (pols w pol)) \<longrightarrow>
              transcripts (Polymerase_Move pol W) k = ShiftMask (transcripts W k) \<and>
              mk_stop (mask (transcripts (Polymerase_Move pol W) k)) = mk_stop (mask (transcripts W k)) \<and>
              mk_start (mask (transcripts (Polymerase_Move pol W) k)) =
                (if mk_start (mask (transcripts W k)) \<le> mk_stop (mask (transcripts W k))
                 then mk_start (mask (transcripts W k)) + 1
                 else mk_start (mask (transcripts W k))))"
proof -
  note f = Genome_Bind_frame [OF assms(1)]
  have step: "transcripts (Polymerase_Move pol W) k = ShiftMask (transcripts W k)"
    if "move_slots (pols W pol) = move_slots (pols w' pol)" "k \<notin> set (move_slots (pols w pol))" for W :: world
  proof -
    have "count_list (move_slots (pols W pol)) k = 1"
      using that unfolding that(1) f(4) k_def by (simp add: count_list_0_iff)
    then show ?thesis by (simp add: transcripts_Polymerase_Move)
  qed
  have shift: "mk_stop (mask (ShiftMask t)) = mk_stop (mask t) \<and>
      mk_start (mask (ShiftMask t)) =
        (if mk_start (mask t) \<le> mk_stop (mask t) then mk_start (mask t) + 1 else mk_start (mask t))" for t
    by (simp add: mask_ShiftMask Recede_def)
  have last: "\<forall>W :: world. move_slots (pols W pol) = move_slots (pols w' pol) \<longrightarrow>
              k \<notin> set (move_slots (pols w pol)) \<longrightarrow>
              transcripts (Polymerase_Move pol W) k = ShiftMask (transcripts W k) \<and>
              mk_stop (mask (transcripts (Polymerase_Move pol W) k)) = mk_stop (mask (transcripts W k)) \<and>
              mk_start (mask (transcripts (Polymerase_Move pol W) k)) =
                (if mk_start (mask (transcripts W k)) \<le> mk_stop (mask (transcripts W k))
                 then mk_start (mask (transcripts W k)) + 1
                 else mk_start (mask (transcripts W k)))"
  proof (intro allI impI)
    fix W :: world assume a: "move_slots (pols W pol) = move_slots (pols w' pol)" "k \<notin> set (move_slots (pols w pol))"
    show "transcripts (Polymerase_Move pol W) k = ShiftMask (transcripts W k) \<and>
              mk_stop (mask (transcripts (Polymerase_Move pol W) k)) = mk_stop (mask (transcripts W k)) \<and>
              mk_start (mask (transcripts (Polymerase_Move pol W) k)) =
                (if mk_start (mask (transcripts W k)) \<le> mk_stop (mask (transcripts W k))
                 then mk_start (mask (transcripts W k)) + 1
                 else mk_start (mask (transcripts W k)))"
      unfolding step [OF a] using shift [of "transcripts W k"] by blast
  qed
  have others: "\<forall>k'. k' \<noteq> k \<longrightarrow> transcripts w' k' = transcripts w k'"
    unfolding k_def using f(3) by blast
  show ?thesis
    unfolding g_def s_def e_def
    apply (intro conjI)
         apply (rule f(4) [folded k_def])
        apply (rule f(2) [folded k_def])
       apply (rule others)
      apply (rule f(5) [folded k_def])
     apply (rule f(1) [folded k_def])
    apply (rule last)
    done
qed

theorem Genome_Bind_builds_transcript_witness:
  "Genome_Bind 0 ''P'' 0 world_A0 = Inr world_A1 \<and>
   Genome_Bind 1 ''Q'' 0 world_A1 = Inr world_A2 \<and>
   p_start (g_base (genome world_A0)) = 1 \<and> p_stop (g_base (genome world_A0)) = 100 \<and>
   n_transcripts world_A0 = 0 \<and> n_transcripts world_A1 = 1 \<and> n_transcripts world_A2 = 2 \<and>
   pol_start (pols world_A1 0) = 10 \<and> pol_stop (pols world_A1 0) = 19 \<and>
   pol_start (pols world_A2 1) = 20 \<and> pol_stop (pols world_A2 1) = 29 \<and>
   map (\<lambda>iv. (iv_start iv, iv_stop iv, pr_name (iv_value iv)))
     (binding_intervals (transcripts world_A1 0)) = [(25, 29, ''g1_rbs'')] \<and>
   map (\<lambda>iv. (iv_start iv, iv_stop iv, tm_name (iv_value iv)))
     (release_intervals (transcripts world_A1 0)) = [(59, 60, ''stop_codon'')] \<and>
   binding_intervals (transcripts world_A2 1) = [] \<and>
   map (\<lambda>iv. (iv_start iv, iv_stop iv, tm_name (iv_value iv)))
     (release_intervals (transcripts world_A2 1)) = [(59, 60, ''stop_codon'')] \<and>
   mask (transcripts world_A1 0) = Mask ''mask'' 19 100 [] \<and>
   mask (transcripts world_A2 1) = Mask ''mask'' 29 100 [] \<and>
   p_start (transcripts world_A1 0) = 1 \<and> p_stop (transcripts world_A1 0) = 100 \<and>
   p_start (transcripts world_A2 1) = 1 \<and> p_stop (transcripts world_A2 1) = 100 \<and>
   transcripts world_A2 0 = transcripts world_A1 0 \<and>
   move_slots (pols world_A1 0) = [0] \<and> move_slots (pols world_A2 1) = [1] \<and>
   (\<exists>w1. Bind GenomeRef 0 ''P'' 0 world_A0 = Inr w1 \<and> events world_A1 = events w1 @ [TranscriptSignal 0]) \<and>
   mk_start (mask (transcripts (Polymerase_Move 0 world_A1) 0)) = 20 \<and>
   mk_start (mask (transcripts (Polymerase_Move 1 world_A2) 1)) = 30"
proof -
  have r: "returns (Genome_Bind 0 ''P'' 0 world_A0)" "returns (Genome_Bind 1 ''Q'' 0 world_A1)"
    by (simp_all add: world_A_defs eval_defs del: not_None_eq)
  have h1: "Genome_Bind 0 ''P'' 0 world_A0 = Inr world_A1"
    unfolding world_A1_def by (rule returns_the_state [OF r(1)])
  have h2: "Genome_Bind 1 ''Q'' 0 world_A1 = Inr world_A2"
    unfolding world_A2_def by (rule returns_the_state [OF r(2)])
  let ?rbs = "Interval 25 29 ((Promoter ''g1_rbs'' 25 29 [(''ribosome'', 1)])\<lparr>pr_gene := ''g1''\<rparr>)"
  let ?stop = "Interval 59 60 ((Terminator ''stop_codon'' 59 60 [(''ribosome'', 1)])
                 \<lparr>tm_reading_frame := Some 0, tm_gene := ''g1''\<rparr>)"
  have e0: "n_transcripts world_A0 = 0" "move_slots (pols world_A0 0) = []"
    "footprint (pols world_A0 0) = 10"
    "pr_start (chosen_promoter (g_base (genome world_A0)) ''P'' 0) = 10"
    "p_start (g_base (genome world_A0)) = 1" "p_stop (g_base (genome world_A0)) = 100"
    "map ((!) (transcript_rbs_intervals (genome world_A0))) (transcript_rbs (genome world_A0)) = [?rbs]"
    "map ((!) (transcript_stop_site_intervals (genome world_A0))) (transcript_stop_sites (genome world_A0))
       = [?stop]"
    by (simp_all add: world_A_defs chosen_promoter_def promoter_choices_def eval_defs del: not_None_eq)
  have e1: "n_transcripts world_A1 = 1" "move_slots (pols world_A1 1) = []"
    "footprint (pols world_A1 1) = 10"
    "pr_start (chosen_promoter (g_base (genome world_A1)) ''Q'' 0) = 20"
    "p_start (g_base (genome world_A1)) = 1" "p_stop (g_base (genome world_A1)) = 100"
    "map ((!) (transcript_rbs_intervals (genome world_A1))) (transcript_rbs (genome world_A1)) = [?rbs]"
    "map ((!) (transcript_stop_site_intervals (genome world_A1))) (transcript_stop_sites (genome world_A1))
       = [?stop]"
    by (simp_all add: world_A_defs chosen_promoter_def promoter_choices_def eval_defs del: not_None_eq)
  note T1 = Genome_Bind_builds_transcript [OF h1]
  note T2 = Genome_Bind_builds_transcript [OF h2]
  have p1: "pol_start (pols world_A1 0) = 10" "pol_stop (pols world_A1 0) = 19"
    "move_slots (pols world_A1 0) = [0]"
    using T1 [THEN conjunct1] e0 by (simp_all add: snapped_def)
  have p2: "pol_start (pols world_A2 1) = 20" "pol_stop (pols world_A2 1) = 29"
    "move_slots (pols world_A2 1) = [1]"
    using T2 [THEN conjunct1] e1 by (simp_all add: snapped_def)
  have n2: "n_transcripts world_A2 = 2"
    using T2 [THEN conjunct2, THEN conjunct1] e1 by simp
  have o2: "transcripts world_A2 0 = transcripts world_A1 0"
    using T2 [THEN conjunct2, THEN conjunct2, THEN conjunct1] e1 by simp
  have t1: "transcripts world_A1 0 =
      Transcript ''rna'' 1 100
        [Interval 25 29 (Clone (iv_value ?rbs))] [Interval 59 60 (Terminator_Clone (iv_value ?stop))]
        (Mask ''mask'' 19 100 []) (transcript_weights (genome world_A0))"
    using T1 [THEN conjunct2, THEN conjunct2, THEN conjunct2, THEN conjunct1]
    unfolding e0 p1 by (simp add: Interval_def)
  have t2: "transcripts world_A2 1 =
      Transcript ''rna'' 1 100
        [] [Interval 59 60 (Terminator_Clone (iv_value ?stop))]
        (Mask ''mask'' 29 100 []) (transcript_weights (genome world_A1))"
    using T2 [THEN conjunct2, THEN conjunct2, THEN conjunct2, THEN conjunct1]
    unfolding e1 p2 by (simp add: Interval_def)
  have ev: "\<exists>w1. Bind GenomeRef 0 ''P'' 0 world_A0 = Inr w1 \<and> events world_A1 = events w1 @ [TranscriptSignal 0]"
    using T1 [THEN conjunct2, THEN conjunct2, THEN conjunct2, THEN conjunct2, THEN conjunct1]
    unfolding e0 .
  have k1: "n_transcripts world_A0 \<notin> set (move_slots (pols world_A0 0))"
    and k2: "n_transcripts world_A1 \<notin> set (move_slots (pols world_A1 1))"
    using e0 e1 by simp_all
  have m1: "mk_start (mask (transcripts (Polymerase_Move 0 world_A1) 0)) = 20"
    using T1 [THEN conjunct2, THEN conjunct2, THEN conjunct2, THEN conjunct2, THEN conjunct2,
              THEN spec, of world_A1, THEN mp, OF refl, THEN mp, OF k1, THEN conjunct2, THEN conjunct2]
    unfolding e0 t1 by (simp add: Transcript_def Mask_def)
  have m2: "mk_start (mask (transcripts (Polymerase_Move 1 world_A2) 1)) = 30"
    using T2 [THEN conjunct2, THEN conjunct2, THEN conjunct2, THEN conjunct2, THEN conjunct2,
              THEN spec, of world_A2, THEN mp, OF refl, THEN mp, OF k2, THEN conjunct2, THEN conjunct2]
    unfolding e1 t2 by (simp add: Transcript_def Mask_def)
  show ?thesis
    unfolding t1 t2 o2
    using h1 h2 e0 e1 p1 p2 n2 ev m1 m2
    by (simp add: Transcript_def Polymer_def Interval_def Clone_def Terminator_Clone_def
          Promoter_def Terminator_def Mask_def)
qed

text \<open>
  C10. A call \<^verbatim>\<open>Move(i)\<close> whose step is rolled back, by a polymerase collision or by
  a mask collision, returns the state of one emission of the polymerase's move
  signal and nothing else: the signal has been emitted exactly once, every
  polymerase stands where it stood, and every transcript has had its
  \<^verbatim>\<open>ShiftMask\<close> run once for each slot that connects it to the polymerase.
\<close>

theorem Move_rolled_back_emits_once:
  assumes "0 \<le> i"
      and "nat i < length (prop_list (get_polymer r w))"
      and "nat i < length (polymerases (get_polymer r w))"
      and "rolled_back r i w"
  shows "\<exists>w'. Move r i us w = Inr w' \<and>
           w' = Emit (polymerases (get_polymer r w) ! nat i) w \<and>
           events w' = events w @ [MoveSignal (polymerases (get_polymer r w) ! nat i)] \<and>
           pols w' = pols w \<and>
           (\<forall>k. transcripts w' k =
              (ShiftMask ^^ count_list (move_slots (pols w (polymerases (get_polymer r w) ! nat i))) k)
                (transcripts w k))"
proof -
  let ?pol = "polymerases (get_polymer r w) ! nat i"
  have "Move r i us w = Inr (Emit ?pol w)"
    using assms by (rule Move_rolled_back)
  moreover have "transcripts (Emit ?pol w) k =
      (ShiftMask ^^ count_list (move_slots (pols w ?pol)) k) (transcripts w k)" for k
    by (simp add: Emit_def transcripts_run_slots pols_emit_event emit_event_def)
  ultimately show ?thesis by (simp add: events_Emit pols_Emit)
qed

theorem Move_rolled_back_emits_once_witness:
  "rolled_back GenomeRef 0 world_A2 \<and> rolled_back GenomeRef 0 world_D1 \<and>
   mk_start (mask (transcripts world_A2 0)) = 19 \<and> pol_stop (pols world_A2 0) = 19 \<and>
   (\<exists>w'. Move GenomeRef 0 (\<lambda>_. 1 / 2) world_A2 = Inr w' \<and>
      events w' = events world_A2 @ [MoveSignal 0] \<and>
      pol_stop (pols w' 0) = 19 \<and> mk_start (mask (transcripts w' 0)) = 20) \<and>
   (\<exists>w'. Move GenomeRef 0 (\<lambda>_. 1 / 2) world_D1 = Inr w' \<and>
      events w' = events world_D1 @ [MoveSignal 0] \<and>
      pol_stop (pols w' 0) = 19 \<and> mk_start (mask (transcripts w' 0)) = 20)"
proof -
  have a: "rolled_back GenomeRef 0 world_A2"
    by (simp add: rolled_back_def world_A_defs eval_defs del: not_None_eq)
  have d: "rolled_back GenomeRef 0 world_D1"
    by (simp add: rolled_back_def world_D1_def genome_D_def eval_defs del: not_None_eq)
  have fa: "polymerases (get_polymer GenomeRef world_A2) = [0, 1]"
    "prop_list (get_polymer GenomeRef world_A2) = [40, 40]"
    "move_slots (pols world_A2 0) = [0]" "pol_stop (pols world_A2 0) = 19"
    "mk_start (mask (transcripts world_A2 0)) = 19" "mk_stop (mask (transcripts world_A2 0)) = 100"
    "mk_start (mask (ShiftMask (transcripts world_A2 0))) = 20"
    by (simp_all add: world_A_defs eval_defs del: not_None_eq)
  have fd: "polymerases (get_polymer GenomeRef world_D1) = [0]"
    "prop_list (get_polymer GenomeRef world_D1) = [40]"
    "move_slots (pols world_D1 0) = [0]" "pol_stop (pols world_D1 0) = 19"
    "mk_start (mask (ShiftMask (transcripts world_D1 0))) = 20"
    by (simp_all add: world_D1_def genome_D_def eval_defs del: not_None_eq)
  from Move_rolled_back_emits_once [of 0 GenomeRef world_A2 "\<lambda>_. 1 / 2"] a fa
  have 1: "\<exists>w'. Move GenomeRef 0 (\<lambda>_. 1 / 2) world_A2 = Inr w' \<and>
      events w' = events world_A2 @ [MoveSignal 0] \<and>
      pol_stop (pols w' 0) = 19 \<and> mk_start (mask (transcripts w' 0)) = 20"
    by simp
  from Move_rolled_back_emits_once [of 0 GenomeRef world_D1 "\<lambda>_. 1 / 2"] d fd
  have 2: "\<exists>w'. Move GenomeRef 0 (\<lambda>_. 1 / 2) world_D1 = Inr w' \<and>
      events w' = events world_D1 @ [MoveSignal 0] \<and>
      pol_stop (pols w' 0) = 19 \<and> mk_start (mask (transcripts w' 0)) = 20"
    by simp
  from a d fa 1 2 show ?thesis by simp
qed

end
